theory Spec2Isabelle
  imports Complex_Main
begin

section \<open>Python values used by the pharmacy back end\<close>

text \<open>
  Strings are lists of characters. Only the ASCII behaviour of the string methods is
  modelled: \<open>lower\<close> maps \<open>A..Z\<close> to \<open>a..z\<close>, \<open>strip\<close> removes the ASCII
  white space that \<open>str.isspace\<close> accepts, \<open>isdigit\<close> accepts \<open>0..9\<close>. Text with
  other characters (the digits beyond ASCII that \<open>isdigit\<close> accepts and \<open>int\<close>
  may refuse, for one) is outside of what the model describes.
\<close>

datatype py_error = ValueError

definition py_lower_char :: "char \<Rightarrow> char" where
  "py_lower_char c =
     (let n = (of_char c :: nat) in if 65 \<le> n \<and> n \<le> 90 then char_of (n + 32) else c)"

definition py_lower :: "string \<Rightarrow> string" where
  "py_lower s = map py_lower_char s"

definition py_isspace :: "char \<Rightarrow> bool" where
  "py_isspace c = (let n = (of_char c :: nat) in (9 \<le> n \<and> n \<le> 13) \<or> (28 \<le> n \<and> n \<le> 32))"

definition py_strip :: "string \<Rightarrow> string" where
  "py_strip s = rev (dropWhile py_isspace (rev (dropWhile py_isspace s)))"

fun py_startswith :: "string \<Rightarrow> string \<Rightarrow> bool" where
  "py_startswith s [] = True"
| "py_startswith [] (p # ps) = False"
| "py_startswith (c # cs) (p # ps) = (c = p \<and> py_startswith cs ps)"

text \<open>\<open>py_contains sub s\<close> is Python's \<open>sub in s\<close> on strings.\<close>

fun py_contains :: "string \<Rightarrow> string \<Rightarrow> bool" where
  "py_contains sub [] = (sub = [])"
| "py_contains sub (c # cs) = (py_startswith (c # cs) sub \<or> py_contains sub cs)"

text \<open>\<open>s.replace("x", "")\<close>: every occurrence of the one-character string is removed.\<close>

definition py_remove_char :: "char \<Rightarrow> string \<Rightarrow> string" where
  "py_remove_char x s = filter (\<lambda>c. c \<noteq> x) s"

definition py_is_digit_char :: "char \<Rightarrow> bool" where
  "py_is_digit_char c = (let n = (of_char c :: nat) in 48 \<le> n \<and> n \<le> 57)"

definition py_isdigit :: "string \<Rightarrow> bool" where
  "py_isdigit s = (s \<noteq> [] \<and> list_all py_is_digit_char s)"

definition digit_val :: "char \<Rightarrow> nat" where
  "digit_val c = of_char c - 48"

text \<open>
  The digits of an integer literal, as \<open>int(str)\<close> accepts them: groups of digits,
  with single underscores between digits only. The result is the digits without the
  underscores, or \<open>None\<close> when the text is not a literal.
\<close>

fun literal_digits :: "bool \<Rightarrow> string \<Rightarrow> string option" where
  "literal_digits prev_digit [] = (if prev_digit then Some [] else None)"
| "literal_digits prev_digit (c # cs) =
     (if py_is_digit_char c then map_option (\<lambda>ds. c # ds) (literal_digits True cs)
      else if c = CHR ''_'' \<and> prev_digit \<and> cs \<noteq> [] \<and> py_is_digit_char (hd cs)
        then literal_digits False cs
      else None)"

definition digits_value :: "string \<Rightarrow> nat" where
  "digits_value ds = foldl (\<lambda>acc c. 10 * acc + digit_val c) 0 ds"

text \<open>
  \<open>int(s)\<close> for a string: white space around, an optional sign, a literal of at most
  4300 digits (the default of \<open>sys.int_max_str_digits\<close>); else ValueError.
\<close>

definition int_max_str_digits :: nat where
  "int_max_str_digits = 4300"

definition py_int :: "string \<Rightarrow> py_error + int" where
  "py_int s =
     (let t = py_strip s;
          (neg, body) = (case t of
                           [] \<Rightarrow> (False, [])
                         | c # cs \<Rightarrow> if c = CHR ''-'' then (True, cs)
                                    else if c = CHR ''+'' then (False, cs)
                                    else (False, t))
      in case literal_digits False body of
           None \<Rightarrow> Inl ValueError
         | Some ds \<Rightarrow>
             if length ds > int_max_str_digits then Inl ValueError
             else Inr (if neg then - int (digits_value ds) else int (digits_value ds)))"

text \<open>\<open>str(n)\<close> for an integer, as the f-strings format it.\<close>

fun show_nat :: "nat \<Rightarrow> string" where
  "show_nat n =
     (if n < 10 then [char_of (48 + n)] else show_nat (n div 10) @ [char_of (48 + n mod 10)])"

definition show_int :: "int \<Rightarrow> string" where
  "show_int i = (if i < 0 then CHR ''-'' # show_nat (nat (- i)) else show_nat (nat i))"

text \<open>\<open>sep.join(xs)\<close>.\<close>

fun py_join :: "string \<Rightarrow> string list \<Rightarrow> string" where
  "py_join sep [] = []"
| "py_join sep [x] = x"
| "py_join sep (x # y # ys) = x @ sep @ py_join sep (y # ys)"

text \<open>Truth value of an \<open>Optional[int]\<close>: \<open>None\<close> and \<open>0\<close> are false.\<close>

definition truthy_int :: "int option \<Rightarrow> bool" where
  "truthy_int v = (case v of None \<Rightarrow> False | Some n \<Rightarrow> n \<noteq> 0)"

section \<open>Data model (models.schemas)\<close>

text \<open>
  Modelled from the spec: \<open>models/schemas.py\<close>, which declares the classes of the
  data model, is missing. The records of this theory have the fields of section 3 of
  the specification that the source reads or writes, under the names the source uses
  (with a prefix where two classes share a field name).
\<close>

record medicine =
  medicine_id :: string
  medicine_name :: string
  strength :: string
  stock_level :: int
  max_quantity_per_order :: int
  prescription_required :: bool
  controlled_substance :: bool
  discontinued :: bool

record extracted_entity =
  medicine :: string
  dosage :: "string option"
  quantity :: int

datatype safety_decision = APPROVE | CONDITIONAL | REJECT

record safety_check_result =
  decision :: safety_decision
  reasons :: "string list"
  allowed_quantity :: "int option"
  requires_followup :: bool
  requires_prescription :: bool
  blocked_items :: "string list"

section \<open>Rule evaluator (agents/safety\_agent.py)\<close>

text \<open>The five local variables of \<open>_perform_safety_checks\<close>, threaded through its loop.\<close>

record safety_vars =
  sv_reasons :: "string list"
  sv_blocked_items :: "string list"
  sv_requires_prescription :: bool
  sv_allowed_quantity :: "int option"
  sv_requires_followup :: bool

definition initial_vars :: safety_vars where
  "initial_vars = \<lparr> sv_reasons = [], sv_blocked_items = [], sv_requires_prescription = False,
                    sv_allowed_quantity = None, sv_requires_followup = False \<rparr>"

text \<open>
  \<open>entity = entities[i] if i < len(entities) else None\<close> and
  \<open>requested_qty = entity.quantity if entity and entity.quantity > 0 else 30\<close>.
\<close>

definition requested_qty :: "extracted_entity list \<Rightarrow> nat \<Rightarrow> int" where
  "requested_qty entities i =
     (if i < length entities \<and> quantity (entities ! i) > 0 then quantity (entities ! i) else 30)"

definition check_prescription :: "bool \<Rightarrow> medicine \<Rightarrow> safety_vars \<Rightarrow> safety_vars" where
  "check_prescription has_prescription m v =
     (if prescription_required m
      then v\<lparr> sv_requires_prescription := True,
              sv_reasons := (if \<not> has_prescription
                             then sv_reasons v @ [medicine_name m @ '' requires a valid prescription.'']
                             else sv_reasons v) \<rparr>
      else v)"

definition check_controlled :: "medicine \<Rightarrow> safety_vars \<Rightarrow> safety_vars" where
  "check_controlled m v =
     (if controlled_substance m
      then v\<lparr> sv_reasons := sv_reasons v @
                 [medicine_name m @ '' is a controlled substance. Special handling required.''],
              sv_requires_followup := True \<rparr>
      else v)"

definition check_stock :: "int \<Rightarrow> medicine \<Rightarrow> safety_vars \<Rightarrow> safety_vars" where
  "check_stock req m v =
     (if stock_level m < req
      then (let a = min (stock_level m) (max_quantity_per_order m)
            in v\<lparr> sv_allowed_quantity := Some a,
                    sv_reasons := sv_reasons v @
                      [''Limited stock available for '' @ medicine_name m @
                       ''. Maximum quantity: '' @ show_int a] \<rparr>)
      else v)"

definition check_max_quantity :: "int \<Rightarrow> medicine \<Rightarrow> safety_vars \<Rightarrow> safety_vars" where
  "check_max_quantity req m v =
     (if req > max_quantity_per_order m
      then v\<lparr> sv_allowed_quantity :=
                 (if \<not> truthy_int (sv_allowed_quantity v) then Some (max_quantity_per_order m)
                  else sv_allowed_quantity v),
              sv_reasons := sv_reasons v @
                 [''Maximum quantity per order for '' @ medicine_name m @ '' is '' @
                  show_int (max_quantity_per_order m)] \<rparr>
      else v)"

text \<open>One iteration of the loop body, for the medicine \<open>m\<close> and its requested quantity.\<close>

definition check_medicine :: "bool \<Rightarrow> int \<Rightarrow> medicine \<Rightarrow> safety_vars \<Rightarrow> safety_vars" where
  "check_medicine has_prescription req m v =
     (if discontinued m
      then v\<lparr> sv_blocked_items := sv_blocked_items v @ [medicine_name m],
              sv_reasons := sv_reasons v @
                 [medicine_name m @ '' has been discontinued and is no longer available.''] \<rparr>
      else
        (let v1 = check_controlled m (check_prescription has_prescription m v)
         in if stock_level m = 0
            then v1\<lparr> sv_blocked_items := sv_blocked_items v1 @ [medicine_name m],
                      sv_reasons := sv_reasons v1 @
                        [medicine_name m @ '' is currently out of stock.''] \<rparr>
            else check_max_quantity req m (check_stock req m v1)))"

text \<open>\<open>for i, medicine in enumerate(matched_medicines)\<close>, from index \<open>i\<close> on.\<close>

fun safety_loop ::
  "bool \<Rightarrow> extracted_entity list \<Rightarrow> nat \<Rightarrow> medicine list \<Rightarrow> safety_vars \<Rightarrow> safety_vars" where
  "safety_loop has_prescription entities i [] v = v"
| "safety_loop has_prescription entities i (m # ms) v =
     safety_loop has_prescription entities (Suc i) ms
       (check_medicine has_prescription (requested_qty entities i) m v)"

definition decide :: "bool \<Rightarrow> nat \<Rightarrow> safety_vars \<Rightarrow> safety_decision" where
  "decide has_prescription n_matched v =
     (if sv_blocked_items v \<noteq> [] \<and> length (sv_blocked_items v) = n_matched then REJECT
      else if sv_blocked_items v \<noteq> [] \<or> (sv_requires_prescription v \<and> \<not> has_prescription)
        then CONDITIONAL
      else if sv_requires_followup v \<or> truthy_int (sv_allowed_quantity v) then CONDITIONAL
      else APPROVE)"

definition perform_safety_checks ::
  "extracted_entity list \<Rightarrow> medicine list \<Rightarrow> bool \<Rightarrow> safety_check_result" where
  "perform_safety_checks entities matched_medicines has_prescription =
     (let v = safety_loop has_prescription entities 0 matched_medicines initial_vars;
          d = decide has_prescription (length matched_medicines) v
      in \<lparr> decision = d,
           reasons = (if d = APPROVE \<and> sv_reasons v = []
                      then sv_reasons v @ [''All safety checks passed.''] else sv_reasons v),
           allowed_quantity = sv_allowed_quantity v,
           requires_followup = sv_requires_followup v,
           requires_prescription = sv_requires_prescription v,
           blocked_items = sv_blocked_items v \<rparr>)"

section \<open>Deterministic refill fallback (agents/refill\_agent.py)\<close>

text \<open>
  A \<open>datetime\<close> is its number of microseconds since the start of the day before
  1 January of the year 1 (so that day \<open>n\<close> of the proleptic Gregorian calendar, the
  \<open>toordinal\<close> of Python, starts at \<open>n\<close> days); \<open>timedelta.days\<close> is the floor of
  the difference in days. An entry of the medication history is a dictionary; the three
  keys the fallback reads are its fields, \<open>None\<close> for an absent key.
  \<open>datetime.now()\<close> is an argument.
\<close>

type_synonym datetime = int

definition timedelta_days :: "datetime \<Rightarrow> datetime \<Rightarrow> int" where
  "timedelta_days later earlier = (later - earlier) div 86400000000"

definition is_leap :: "nat \<Rightarrow> bool" where
  "is_leap y = (y mod 4 = 0 \<and> (y mod 400 = 0 \<or> y mod 100 \<noteq> 0))"

definition days_in_month :: "nat \<Rightarrow> nat \<Rightarrow> nat" where
  "days_in_month y m =
     (if m = 2 then (if is_leap y then 29 else 28)
      else if m = 4 \<or> m = 6 \<or> m = 9 \<or> m = 11 then 30 else 31)"

definition days_before_year :: "nat \<Rightarrow> nat" where
  "days_before_year y = 365 * (y - 1) + (y - 1) div 4 - (y - 1) div 100 + (y - 1) div 400"

definition days_before_month :: "nat \<Rightarrow> nat \<Rightarrow> nat" where
  "days_before_month y m = sum_list (map (days_in_month y) [1..<m])"

text \<open>\<open>datetime(y, m, d, hh, mm, ss, us)\<close> for a valid date and time of day.\<close>

definition make_datetime :: "nat \<Rightarrow> nat \<Rightarrow> nat \<Rightarrow> nat \<Rightarrow> nat \<Rightarrow> nat \<Rightarrow> nat \<Rightarrow> datetime" where
  "make_datetime y m d hh mm ss us =
     int (days_before_year y + days_before_month y m + d) * 86400000000 +
     int hh * 3600000000 + int mm * 60000000 + int ss * 1000000 + int us"

text \<open>
  \<open>datetime.strptime(s, "%Y-%m-%d")\<close>. The text is matched from its start: four
  digits for the year, a hyphen, the month (10 to 12, or 01 to 09, or 1 to 9), a hyphen,
  the day (30 or 31, or 10 to 29, or 01 to 09, or 1 to 9, or a space and 1 to 9), in
  each case the first of these alternatives that matches. Text left over, a year 0 or
  a day that the month does not have raise ValueError.
\<close>

definition char_in :: "char \<Rightarrow> nat \<Rightarrow> nat \<Rightarrow> bool" where
  "char_in c lo hi = (let n = (of_char c :: nat) in 48 + lo \<le> n \<and> n \<le> 48 + hi)"

definition parse_year :: "string \<Rightarrow> (nat \<times> string) option" where
  "parse_year s =
     (if length s \<ge> 4 \<and> list_all py_is_digit_char (take 4 s)
      then Some (digits_value (take 4 s), drop 4 s) else None)"

fun parse_month :: "string \<Rightarrow> (nat \<times> string) option" where
  "parse_month (a # b # rest) =
     (if a = CHR ''1'' \<and> char_in b 0 2 then Some (10 + digit_val b, rest)
      else if a = CHR ''0'' \<and> char_in b 1 9 then Some (digit_val b, rest)
      else if char_in a 1 9 then Some (digit_val a, b # rest)
      else None)"
| "parse_month [a] = (if char_in a 1 9 then Some (digit_val a, []) else None)"
| "parse_month [] = None"

fun parse_day :: "string \<Rightarrow> (nat \<times> string) option" where
  "parse_day (a # b # rest) =
     (if a = CHR ''3'' \<and> char_in b 0 1 then Some (30 + digit_val b, rest)
      else if char_in a 1 2 \<and> char_in b 0 9 then Some (10 * digit_val a + digit_val b, rest)
      else if a = CHR ''0'' \<and> char_in b 1 9 then Some (digit_val b, rest)
      else if char_in a 1 9 then Some (digit_val a, b # rest)
      else if a = CHR '' '' \<and> char_in b 1 9 then Some (digit_val b, rest)
      else None)"
| "parse_day [a] = (if char_in a 1 9 then Some (digit_val a, []) else None)"
| "parse_day [] = None"

text \<open>A literal hyphen, then the rest.\<close>

definition parse_hyphen :: "string \<Rightarrow> string option" where
  "parse_hyphen s = (case s of [] \<Rightarrow> None | c # rest \<Rightarrow> if c = CHR ''-'' then Some rest else None)"

definition strptime_ymd :: "string \<Rightarrow> py_error + datetime" where
  "strptime_ymd s =
     (case parse_year s of
        None \<Rightarrow> Inl ValueError
      | Some (y, s1) \<Rightarrow>
      (case parse_hyphen s1 of
        None \<Rightarrow> Inl ValueError
      | Some s2 \<Rightarrow>
      (case parse_month s2 of
        None \<Rightarrow> Inl ValueError
      | Some (m, s3) \<Rightarrow>
      (case parse_hyphen s3 of
        None \<Rightarrow> Inl ValueError
      | Some s4 \<Rightarrow>
      (case parse_day s4 of
        None \<Rightarrow> Inl ValueError
      | Some (d, s5) \<Rightarrow>
          if s5 = [] \<and> 1 \<le> y \<and> d \<le> days_in_month y m
          then Inr (make_datetime y m d 0 0 0 0)
          else Inl ValueError)))))"

datatype purchase_date_value = No_Date | Date_Str string | Date_Time datetime

record history_entry =
  h_medicine_name :: "string option"
  h_supply_days :: "int option"
  h_purchase_date :: purchase_date_value

text \<open>
  Modelled from the spec: the class \<open>RefillPrediction\<close> of \<open>models/schemas.py\<close>
  is missing; its fields are those the fallback fills in.
\<close>

datatype refill_action = NONE | REMIND | AUTO_REFILL | BLOCK

record refill_prediction =
  rp_medicine :: string
  rp_days_remaining :: int
  rp_action :: refill_action
  rp_confidence :: rat
  rp_reason :: string

text \<open>
  \<open>datetime.strptime(d, "%Y-%m-%d") if isinstance(d, str) else d\<close>; the result \<open>None\<close>
  is the falsy value of \<open>if purchase_date:\<close>.
\<close>

definition resolve_purchase_date :: "purchase_date_value \<Rightarrow> py_error + datetime option" where
  "resolve_purchase_date d =
     (case d of
        No_Date \<Rightarrow> Inr None
      | Date_Time t \<Rightarrow> Inr (Some t)
      | Date_Str s \<Rightarrow> (case strptime_ymd s of Inl e \<Rightarrow> Inl e | Inr t \<Rightarrow> Inr (Some t)))"

definition fallback_prediction :: "datetime \<Rightarrow> history_entry \<Rightarrow> datetime \<Rightarrow> refill_prediction" where
  "fallback_prediction now med purchase_date =
     (let days_supply = (case h_supply_days med of None \<Rightarrow> 30 | Some d \<Rightarrow> d);
          days_since = timedelta_days now purchase_date;
          days_remaining = max 0 (days_supply - days_since)
      in \<lparr> rp_medicine = (case h_medicine_name med of None \<Rightarrow> ''Unknown'' | Some n \<Rightarrow> n),
           rp_days_remaining = days_remaining,
           rp_action = (if days_remaining \<le> 5 then REMIND else NONE),
           rp_confidence = 1,
           rp_reason = ''Deterministic calculation'' \<rparr>)"

text \<open>The loop of \<open>_fallback_calculation\<close>; a ValueError of \<open>strptime\<close> leaves the function.\<close>

fun fallback_loop ::
  "datetime \<Rightarrow> history_entry list \<Rightarrow> refill_prediction list \<Rightarrow>
   py_error + refill_prediction list" where
  "fallback_loop now [] predictions = Inr predictions"
| "fallback_loop now (med # rest) predictions =
     (case resolve_purchase_date (h_purchase_date med) of
        Inl e \<Rightarrow> Inl e
      | Inr None \<Rightarrow> fallback_loop now rest predictions
      | Inr (Some t) \<Rightarrow>
          fallback_loop now rest (predictions @ [fallback_prediction now med t]))"

definition fallback_calculation ::
  "datetime \<Rightarrow> history_entry list \<Rightarrow> py_error + refill_prediction list" where
  "fallback_calculation now history = fallback_loop now history []"

section \<open>Floating-point arithmetic\<close>

text \<open>
  Prices and totals are Python floats. Their arithmetic is kept abstract: every
  definition below takes the operations it uses as a record over an arbitrary carrier,
  so that what is proved holds for IEEE doubles as for any other reading of them.
  \<open>float_lit d k\<close> is the literal with the decimal digits \<open>d\<close> and \<open>k\<close> places
  (\<open>float_lit 15 2\<close> is \<open>0.15\<close>), \<open>float_sum\<close> is the built-in \<open>sum\<close>,
  \<open>py_round2 x\<close> is \<open>round(x, 2)\<close> and \<open>float_fmt2\<close> the format \<open>:.2f\<close>.
\<close>

record 'f float_ops =
  float_lit :: "nat \<Rightarrow> nat \<Rightarrow> 'f"
  float_of_int :: "int \<Rightarrow> 'f"
  float_mul :: "'f \<Rightarrow> 'f \<Rightarrow> 'f"
  float_sum :: "'f list \<Rightarrow> 'f"
  py_round2 :: "'f \<Rightarrow> 'f"
  float_fmt2 :: "'f \<Rightarrow> string"

text \<open>An exact instance over the rationals, for running the model on examples.\<close>

definition round_half_even :: "rat \<Rightarrow> int" where
  "round_half_even x =
     (let f = \<lfloor>x\<rfloor>; r = x - of_int f
      in if r < 1/2 then f else if r > 1/2 then f + 1 else if even f then f else f + 1)"

definition exact_ops :: "rat float_ops" where
  "exact_ops = \<lparr> float_lit = (\<lambda>d k. of_nat d / 10 ^ k),
                 float_of_int = of_int,
                 float_mul = (*),
                 float_sum = sum_list,
                 py_round2 = (\<lambda>x. of_int (round_half_even (x * 100)) / 100),
                 float_fmt2 = (\<lambda>x. let c = round_half_even (x * 100)
                                     in show_int (c div 100) @ ''.'' @
                                        show_nat (nat (c mod 100) div 10) @
                                        show_nat (nat (c mod 100) mod 10)) \<rparr>"

section \<open>Order assembly (agents/orchestrator\_agent.py)\<close>

text \<open>
  Modelled from the spec: the classes \<open>OrderItem\<close>, \<open>OrderPreview\<close>,
  \<open>ChatRequest\<close>, \<open>ChatResponse\<close>, \<open>ExtractionResult\<close> and the patient
  record are declared in the missing \<open>models/schemas.py\<close>; they have the fields that
  \<open>_handle_order\<close> reads or writes.
\<close>

record 'f order_item =
  item_medicine_id :: string
  item_medicine_name :: string
  item_strength :: string
  item_quantity :: int
  item_unit_price :: 'f
  item_prescription_required :: bool

record 'f order_preview =
  preview_id :: string
  preview_patient_id :: string
  preview_patient_name :: string
  items :: "'f order_item list"
  total_amount :: 'f
  safety_decision :: safety_decision
  safety_reasons :: "string list"
  preview_requires_prescription :: bool
  created_at :: datetime

record patient =
  patient_id :: string
  patient_name :: string

record chat_request =
  req_patient_id :: string
  req_message :: string
  req_session_id :: "string option"

text \<open>What the extraction collaborator returned for the message.\<close>

record extraction_result =
  entities :: "extracted_entity list"
  needs_clarification :: bool
  clarification_message :: string

text \<open>
  The two dictionaries of \<open>OrchestratorAgent\<close> that the order handlers use:
  \<open>pending_previews\<close> from preview id to preview, \<open>session_contexts\<close> from session to
  the preview id pending there.
\<close>

record 'f orchestrator =
  pending_previews :: "string \<rightharpoonup> 'f order_preview"
  session_contexts :: "string \<rightharpoonup> string"

text \<open>\<open>request.session_id or request.patient_id\<close>: \<open>None\<close> and the empty string are falsy.\<close>

definition session_key :: "chat_request \<Rightarrow> string" where
  "session_key request =
     (case req_session_id request of
        None \<Rightarrow> req_patient_id request
      | Some s \<Rightarrow> if s = [] then req_patient_id request else s)"

text \<open>
  Step 2. For an entity with search results: the first result whose strength contains
  the dosage (or any result when the entity has no dosage), else the first result.
\<close>

definition dosage_matches :: "extracted_entity \<Rightarrow> medicine \<Rightarrow> bool" where
  "dosage_matches entity med =
     (case dosage entity of
        None \<Rightarrow> True
      | Some d \<Rightarrow> d = [] \<or> py_contains (py_lower d) (py_lower (strength med)))"

definition match_entity :: "(string \<Rightarrow> medicine list) \<Rightarrow> extracted_entity \<Rightarrow> medicine list" where
  "match_entity search_medicine entity =
     (case search_medicine (medicine entity) of
        [] \<Rightarrow> []
      | first # others \<Rightarrow>
          (case find (dosage_matches entity) (first # others) of
             Some med \<Rightarrow> [med]
           | None \<Rightarrow> [first]))"

definition match_medicines ::
  "(string \<Rightarrow> medicine list) \<Rightarrow> extracted_entity list \<Rightarrow> medicine list" where
  "match_medicines search_medicine es = concat (map (match_entity search_medicine) es)"

text \<open>
  Step 4. \<open>quantity = entity.quantity if entity.quantity > 0 else 30\<close>, then
  \<open>if safety_result.allowed_quantity: quantity = min(quantity, allowed_quantity)\<close>.
\<close>

definition resolved_quantity :: "int option \<Rightarrow> extracted_entity \<Rightarrow> int" where
  "resolved_quantity allowed entity =
     (let q = (if quantity entity > 0 then quantity entity else 30)
      in case allowed of
           None \<Rightarrow> q
         | Some cap \<Rightarrow> if cap \<noteq> 0 then min q cap else q)"

text \<open>
  The item of one entity and the medicine at the same index. Its price is the field's
  default here (taken as zero); the pricing loop below overwrites it on every item.
\<close>

definition make_item ::
  "'f float_ops \<Rightarrow> int option \<Rightarrow> extracted_entity \<Rightarrow> medicine \<Rightarrow> 'f order_item" where
  "make_item ops allowed entity med =
     \<lparr> item_medicine_id = medicine_id med,
       item_medicine_name = medicine_name med,
       item_strength = strength med,
       item_quantity = resolved_quantity allowed entity,
       item_unit_price = float_of_int ops 0,
       item_prescription_required = prescription_required med \<rparr>"

text \<open>
  \<open>for i, entity in enumerate(entities): if i < len(matched_medicines): ...\<close> pairs
  the entities and the matched medicines index by index, up to the shorter list.
\<close>

fun build_items ::
  "'f float_ops \<Rightarrow> int option \<Rightarrow> extracted_entity list \<Rightarrow> medicine list \<Rightarrow> 'f order_item list" where
  "build_items ops allowed (entity # es) (med # ms) =
     make_item ops allowed entity med # build_items ops allowed es ms"
| "build_items ops allowed es ms = []"

definition price_map :: "'f float_ops \<Rightarrow> (string \<times> 'f) list" where
  "price_map ops =
     [(''Paracetamol'', float_lit ops 15 2),
      (''Metformin'', float_lit ops 20 2),
      (''Atorvastatin'', float_lit ops 85 2),
      (''Lisinopril'', float_lit ops 55 2),
      (''Amlodipine'', float_lit ops 65 2),
      (''Omeprazole'', float_lit ops 40 2),
      (''Amoxicillin'', float_lit ops 35 2),
      (''Ibuprofen'', float_lit ops 20 2),
      (''Aspirin'', float_lit ops 10 2)]"

definition set_price :: "'f float_ops \<Rightarrow> 'f order_item \<Rightarrow> 'f order_item" where
  "set_price ops item =
     item\<lparr> item_unit_price :=
             (case map_of (price_map ops) (item_medicine_name item) of
                Some p \<Rightarrow> p
              | None \<Rightarrow> float_lit ops 50 2) \<rparr>"

definition subtotal :: "'f float_ops \<Rightarrow> 'f order_item list \<Rightarrow> 'f" where
  "subtotal ops its =
     float_sum ops (map (\<lambda>item. float_mul ops (item_unit_price item)
                                  (float_of_int ops (item_quantity item))) its)"

definition items_summary :: "'f order_item list \<Rightarrow> string" where
  "items_summary its =
     py_join '', ''
       (map (\<lambda>item. item_medicine_name item @ '' '' @ item_strength item @ '' x'' @
                     show_int (item_quantity item)) its)"

record 'f chat_response =
  message :: string
  extracted_entities :: "extraction_result option"
  safety_result :: "safety_check_result option"
  order_preview :: "'f order_preview option"
  requires_confirmation :: bool

definition plain_response :: "string \<Rightarrow> 'f chat_response" where
  "plain_response msg =
     \<lparr> message = msg, extracted_entities = None, safety_result = None,
       order_preview = None, requires_confirmation = False \<rparr>"

definition newline :: string where
  "newline = [char_of (10::nat)]"

definition apostrophe :: string where
  "apostrophe = [char_of (39::nat)]"

definition confirm_or_cancel :: string where
  "confirm_or_cancel =
     apostrophe @ ''confirm'' @ apostrophe @ '' to place the order or '' @
     apostrophe @ ''cancel'' @ apostrophe @ '' to cancel.''"

text \<open>
  \<open>_handle_order\<close>. The extraction result, the catalogue search, the preview id that
  \<open>_generate_preview_id\<close> draws and the clock are arguments. The safety check runs with
  \<open>has_prescription=False\<close>.
\<close>

definition handle_order ::
  "'f float_ops \<Rightarrow> extraction_result \<Rightarrow> (string \<Rightarrow> medicine list) \<Rightarrow> string \<Rightarrow> datetime \<Rightarrow>
   chat_request \<Rightarrow> patient \<Rightarrow> 'f orchestrator \<Rightarrow> 'f orchestrator \<times> 'f chat_response" where
  "handle_order ops extraction search_medicine new_id now request pat st =
     (if needs_clarification extraction
      then (st, (plain_response (clarification_message extraction))
                  \<lparr> extracted_entities := Some extraction \<rparr>)
      else if entities extraction = []
      then (st, (plain_response
                   (''I couldn'' @ apostrophe @ ''t identify any medications in your request. '' @
                    ''Could you please specify which medicine you need?''))
                  \<lparr> extracted_entities := Some extraction \<rparr>)
      else
        (let matched_medicines = match_medicines search_medicine (entities extraction)
         in if matched_medicines = []
            then (st, (plain_response
                         (''I couldn'' @ apostrophe @ ''t find '' @ apostrophe @
                          medicine (hd (entities extraction)) @ apostrophe @
                          '' in our inventory. Please check the spelling or try a '' @
                          ''different medication.''))
                        \<lparr> extracted_entities := Some extraction \<rparr>)
            else
              (let sr = perform_safety_checks (entities extraction) matched_medicines False
               in if decision sr = REJECT
                  then (st, (plain_response
                               (''I'' @ apostrophe @ ''m sorry, but I cannot process this order. '' @
                                py_join '' '' (reasons sr)))
                              \<lparr> extracted_entities := Some extraction, safety_result := Some sr \<rparr>)
                  else
                    (let its = map (set_price ops)
                                 (build_items ops (allowed_quantity sr) (entities extraction)
                                    matched_medicines);
                         preview =
                           \<lparr> preview_id = new_id,
                             preview_patient_id = patient_id pat,
                             preview_patient_name = patient_name pat,
                             items = its,
                             total_amount = py_round2 ops (subtotal ops its),
                             safety_decision = decision sr,
                             safety_reasons = reasons sr,
                             preview_requires_prescription = requires_prescription sr,
                             created_at = now \<rparr>;
                         st' = st\<lparr> pending_previews := (pending_previews st)(new_id \<mapsto> preview),
                                   session_contexts :=
                                     (session_contexts st)(session_key request \<mapsto> new_id) \<rparr>;
                         msg =
                           (if decision sr = CONDITIONAL
                            then ''I can prepare your order for '' @ items_summary its @
                                 ''. However: '' @ py_join '' '' (reasons sr) @ newline @ newline @
                                 ''Would you like to proceed? Reply '' @ confirm_or_cancel
                            else ''Great! I'' @ apostrophe @ ''ve prepared your order for '' @
                                 items_summary its @ ''.'' @ newline @ newline @
                                 ''Estimated total: $'' @ float_fmt2 ops (total_amount preview) @
                                 newline @ newline @ ''Please reply '' @ confirm_or_cancel)
                     in (st', \<lparr> message = msg, extracted_entities = Some extraction,
                               safety_result = Some sr, order_preview = Some preview,
                               requires_confirmation = True \<rparr>)))))"

text \<open>
  \<open>_handle_order_cancellation\<close>. \<open>preview_id\<close> is falsy when the session has no entry
  or the entry is the empty string.
\<close>

definition cancelled_message :: string where
  "cancelled_message =
     ''Your order has been cancelled. Is there anything else I can help you with?''"

definition handle_order_cancellation ::
  "chat_request \<Rightarrow> 'f orchestrator \<Rightarrow> 'f orchestrator \<times> 'f chat_response" where
  "handle_order_cancellation request st =
     (let session_id = session_key request;
          st1 = (case session_contexts st session_id of
                   None \<Rightarrow> st
                 | Some pid \<Rightarrow>
                     if pid \<noteq> [] \<and> pending_previews st pid \<noteq> None
                     then st\<lparr> pending_previews := (pending_previews st)(pid := None) \<rparr>
                     else st);
          st2 = (if session_contexts st1 session_id \<noteq> None
                 then st1\<lparr> session_contexts := (session_contexts st1)(session_id := None) \<rparr>
                 else st1)
      in (st2, plain_response cancelled_message))"

section \<open>Order lifecycle (fulfilment collaborator)\<close>

text \<open>
  \<open>agents/fulfillment_agent.py\<close> and \<open>services/data_service.py\<close> are called by the
  handlers below but are not among the source files. Their operations are modelled
  from the specification, sections 3, 4.3 and 4.4.
\<close>

text \<open>
  Modelled from the spec: the classes \<open>OrderStatus\<close> and \<open>Order\<close> of the missing
  \<open>models/schemas.py\<close>, with the statuses, the event log and the side events of
  sections 3 and 4.4.
\<close>

datatype order_status =
  PENDING | VALIDATED | CONFIRMED | PROCESSING | PREPARING | SHIPPED | COMPLETED | CANCELLED

datatype side_kind =
  Safety_Validation | Order_Confirmation | Inventory_Update int | Fulfillment_Initiation

datatype order_event = Status_Event order_status string | Side_Event side_kind

record 'f order =
  order_id :: string
  order_patient_id :: string
  order_items :: "'f order_item list"
  status :: order_status
  events :: "order_event list"

text \<open>
  Modelled from the spec: \<open>fulfillment_agent.create_order\<close> is missing. An order is
  created with the items of the confirming preview, in state PENDING ("PENDING
  (creation)"), with an event log that is empty so far; the order id is an argument.
\<close>

definition create_order ::
  "string \<Rightarrow> string \<Rightarrow> 'f order_item list \<Rightarrow> (string \<rightharpoonup> 'f order) \<Rightarrow>
   (string \<rightharpoonup> 'f order) \<times> 'f order" where
  "create_order new_id pid its orders =
     (let order = \<lparr> order_id = new_id, order_patient_id = pid, order_items = its,
                     status = PENDING, events = [] \<rparr>
      in (orders(new_id \<mapsto> order), order))"

text \<open>Position of a status in the progression of section 3 of the specification.\<close>

fun status_rank :: "order_status \<Rightarrow> nat" where
  "status_rank PENDING = 0"
| "status_rank VALIDATED = 1"
| "status_rank CONFIRMED = 2"
| "status_rank PROCESSING = 3"
| "status_rank PREPARING = 4"
| "status_rank SHIPPED = 5"
| "status_rank COMPLETED = 6"
| "status_rank CANCELLED = 7"

text \<open>
  Modelled from the spec: the transitions of the order lifecycle state machine.
  "Status changes are monotonic forward except for cancellation", and "CANCELLED is
  reachable from any state except COMPLETED/CANCELLED itself".
\<close>

definition transition_allowed :: "order_status \<Rightarrow> order_status \<Rightarrow> bool" where
  "transition_allowed old new =
     (old \<noteq> COMPLETED \<and> old \<noteq> CANCELLED \<and>
      (new = CANCELLED \<or> status_rank old < status_rank new))"

text \<open>
  Modelled from the spec: \<open>fulfillment_agent.update_order_status\<close> is missing. "Each
  transition [is] recorded as an event (status, note, timestamp) appended to the
  order's event log, never overwritten". A status change that is not a transition of
  the state machine is refused: the order keeps its status and its event log.
\<close>

definition update_order_status ::
  "string \<Rightarrow> order_status \<Rightarrow> string \<Rightarrow> (string \<rightharpoonup> 'f order) \<Rightarrow> (string \<rightharpoonup> 'f order)" where
  "update_order_status oid s note orders =
     (case orders oid of
        None \<Rightarrow> orders
      | Some order \<Rightarrow>
          if transition_allowed (status order) s
          then orders(oid \<mapsto> order\<lparr> status := s, events := events order @ [Status_Event s note] \<rparr>)
          else orders)"

text \<open>
  Modelled from the spec: the \<open>record_...\<close> methods of the fulfilment collaborator are
  missing. Each appends an event that is "recorded as a side event, not a status".
\<close>

definition record_side_event ::
  "string \<Rightarrow> side_kind \<Rightarrow> (string \<rightharpoonup> 'f order) \<Rightarrow> (string \<rightharpoonup> 'f order)" where
  "record_side_event oid kind orders =
     (case orders oid of
        None \<Rightarrow> orders
      | Some order \<Rightarrow> orders(oid \<mapsto> order\<lparr> events := events order @ [Side_Event kind] \<rparr>))"

text \<open>
  Modelled from the spec: \<open>data_service.update_stock\<close> is missing. It "updates stock
  for each item by subtracting the ordered quantity".
\<close>

definition update_stock :: "string \<Rightarrow> int \<Rightarrow> (string \<rightharpoonup> int) \<Rightarrow> (string \<rightharpoonup> int)" where
  "update_stock mid qty stock =
     (case stock mid of None \<Rightarrow> stock | Some level \<Rightarrow> stock(mid \<mapsto> level - qty))"

definition update_stock_all :: "'f order_item list \<Rightarrow> (string \<rightharpoonup> int) \<Rightarrow> (string \<rightharpoonup> int)" where
  "update_stock_all its stock =
     foldl (\<lambda>s item. update_stock (item_medicine_id item) (item_quantity item) s) stock its"

section \<open>Confirmation (agents/orchestrator\_agent.py)\<close>

record 'f backend =
  orchestrator :: "'f orchestrator"
  orders :: "string \<rightharpoonup> 'f order"
  stock :: "string \<rightharpoonup> int"

datatype 'f confirmation = No_Pending_Order string | Order_Confirmed "'f order"

definition no_pending_message :: string where
  "no_pending_message =
     ''I don'' @ apostrophe @
     ''t see any pending order to confirm. Would you like to place a new order?''"

text \<open>
  \<open>_handle_order_confirmation\<close>, its steps in the order of the source. The order
  history record, the receipt and the refill advisory go to the patient store and the
  reply text only; the reply is represented by the confirmed order.
\<close>

definition handle_order_confirmation ::
  "string \<Rightarrow> chat_request \<Rightarrow> patient \<Rightarrow> 'f backend \<Rightarrow> 'f backend \<times> 'f confirmation" where
  "handle_order_confirmation new_order_id request pat st =
     (let session_id = session_key request;
          orch = orchestrator st
      in case session_contexts orch session_id of
           None \<Rightarrow> (st, No_Pending_Order no_pending_message)
         | Some pid \<Rightarrow>
             (case (if pid = [] then None else pending_previews orch pid) of
                None \<Rightarrow> (st, No_Pending_Order no_pending_message)
              | Some preview \<Rightarrow>
                  (let (o0, order) = create_order new_order_id (patient_id pat) (items preview)
                                       (orders st);
                       oid = order_id order;
                       o1 = record_side_event oid Safety_Validation o0;
                       o2 = update_order_status oid VALIDATED ''Safety validation completed'' o1;
                       o3 = record_side_event oid Order_Confirmation o2;
                       o4 = update_order_status oid CONFIRMED ''Order confirmed by patient'' o3;
                       stock' = update_stock_all (order_items order) (stock st);
                       total_quantity = foldl (\<lambda>n item. n + item_quantity item) 0
                                          (order_items order);
                       o5 = record_side_event oid (Inventory_Update total_quantity) o4;
                       o6 = record_side_event oid Fulfillment_Initiation o5;
                       o7 = update_order_status oid PROCESSING
                              ''Order is being processed for delivery'' o6;
                       orch' = orch\<lparr> pending_previews := (pending_previews orch)(pid := None),
                                      session_contexts :=
                                        (session_contexts orch)(session_id := None) \<rparr>
                   in (\<lparr> orchestrator = orch', orders = o7, stock = stock' \<rparr>,
                       Order_Confirmed (case o7 oid of Some final \<Rightarrow> final | None \<Rightarrow> order)))))"

section \<open>Decision envelope and REST endpoints (main.py)\<close>

text \<open>
  Modelled from the spec: the class \<open>AgentDecision\<close> of the missing
  \<open>models/schemas.py\<close>; its fields are those of the tool schema
  \<open>record_agent_decision\<close> in the agents.
\<close>

datatype agent_verdict = APPROVED | REJECTED | NEEDS_INFO | SCHEDULED

record agent_decision =
  ad_agent :: string
  ad_decision :: agent_verdict
  ad_reason :: string
  ad_message :: "string option"
  ad_evidence :: "string list"
  ad_next_agent :: "string option"

datatype http_error = HTTP_400 | HTTP_404

text \<open>
  \<open>POST /api/orders/{order_id}/confirm\<close>. The decision of \<open>fulfillment_agent.run\<close> is
  an argument; the warehouse webhook it schedules runs later, as \<open>warehouse_webhook\<close>.
\<close>

definition confirm_order ::
  "agent_decision \<Rightarrow> string \<Rightarrow> (string \<rightharpoonup> 'f order) \<times> (string \<rightharpoonup> int) \<Rightarrow>
   http_error + (string \<rightharpoonup> 'f order) \<times> (string \<rightharpoonup> int)" where
  "confirm_order fulfillment_decision oid st =
     (if ad_decision fulfillment_decision = REJECTED then Inl HTTP_400
      else case fst st oid of
             None \<Rightarrow> Inl HTTP_404
           | Some order \<Rightarrow>
               (let o1 = update_order_status oid CONFIRMED ''Order confirmed'' (fst st);
                    stock' = update_stock_all (order_items order) (snd st);
                    o2 = update_order_status oid PREPARING ''Preparing order'' o1;
                    o3 = update_order_status oid SHIPPED ''Order dispatched from warehouse'' o2
                in Inr (o3, stock')))"

text \<open>\<open>POST /api/orders/{order_id}/cancel\<close>.\<close>

definition cancel_order ::
  "string \<Rightarrow> (string \<rightharpoonup> 'f order) \<Rightarrow> http_error + (string \<rightharpoonup> 'f order)" where
  "cancel_order oid all_orders =
     (case all_orders oid of
        None \<Rightarrow> Inl HTTP_404
      | Some order \<Rightarrow>
          if status order = COMPLETED \<or> status order = CANCELLED then Inl HTTP_400
          else Inr (update_order_status oid CANCELLED ''Order cancelled by user'' all_orders))"

text \<open>\<open>POST /api/webhook/warehouse\<close>.\<close>

definition warehouse_webhook :: "string \<Rightarrow> (string \<rightharpoonup> 'f order) \<Rightarrow> (string \<rightharpoonup> 'f order)" where
  "warehouse_webhook oid all_orders =
     (if all_orders oid \<noteq> None
      then update_order_status oid PROCESSING
             ''Order received by warehouse, processing for shipment'' all_orders
      else all_orders)"

text \<open>The statuses an event log records, in the order of recording.\<close>

fun status_log :: "order_event list \<Rightarrow> order_status list" where
  "status_log [] = []"
| "status_log (Status_Event s note # es) = s # status_log es"
| "status_log (Side_Event k # es) = status_log es"

text \<open>No recorded status is followed by an earlier one, cancellation apart.\<close>

fun no_regress :: "order_status list \<Rightarrow> bool" where
  "no_regress (a # b # rest) =
     ((b = CANCELLED \<or> (a \<noteq> CANCELLED \<and> status_rank a \<le> status_rank b)) \<and> no_regress (b # rest))"
| "no_regress rest = True"

text \<open>\<open>occurs_in_order xs ys\<close>: the elements of \<open>xs\<close> occur in \<open>ys\<close>, in this order.\<close>

fun occurs_in_order :: "'a list \<Rightarrow> 'a list \<Rightarrow> bool" where
  "occurs_in_order [] ys = True"
| "occurs_in_order (x # xs) [] = False"
| "occurs_in_order (x # xs) (y # ys) =
     (if x = y then occurs_in_order xs ys else occurs_in_order (x # xs) ys)"

definition monotonic_lifecycle :: "order_event list \<Rightarrow> bool" where
  "monotonic_lifecycle event_log =
     (occurs_in_order [VALIDATED, CONFIRMED, PROCESSING] (status_log event_log) \<and>
      no_regress (status_log event_log))"

section \<open>Decision router (main.py)\<close>

definition split_first_colon :: "string \<Rightarrow> (string \<times> string) option" where
  "split_first_colon item =
     (if CHR '':'' \<in> set item
      then Some (takeWhile (\<lambda>c. c \<noteq> CHR '':'') item, tl (dropWhile (\<lambda>c. c \<noteq> CHR '':'') item))
      else None)"

definition parse_evidence :: "string list \<Rightarrow> (string \<rightharpoonup> string)" where
  "parse_evidence evidence =
     foldl (\<lambda>result item.
              case split_first_colon item of
                None \<Rightarrow> result
              | Some (key, val) \<Rightarrow> result(py_lower (py_strip key) \<mapsto> py_strip val))
       Map.empty evidence"

text \<open>\<open>d.get(key, default)\<close>.\<close>

definition dict_get :: "(string \<rightharpoonup> string) \<Rightarrow> string \<Rightarrow> string \<Rightarrow> string" where
  "dict_get d key dflt = (case d key of None \<Rightarrow> dflt | Some v \<Rightarrow> v)"

text \<open>
  The quantity of the InventoryAgent and PolicyAgent branches:
  \<open>int(extracted_data.get("quantity", "30").replace("x","")) if "quantity" in extracted_data else 30\<close>.
\<close>

definition handoff_quantity :: "(string \<rightharpoonup> string) \<Rightarrow> py_error + int" where
  "handoff_quantity extracted_data =
     (if extracted_data ''quantity'' \<noteq> None
      then py_int (py_remove_char (CHR ''x'') (dict_get extracted_data ''quantity'' ''30''))
      else Inr 30)"

text \<open>
  The quantity of the FulfillmentAgent branch:
  \<open>qty_str = str(extracted_data.get("quantity", "1")).replace("x", "").strip()\<close> and
  \<open>qty = int(qty_str) if qty_str.isdigit() else 1\<close>.
\<close>

definition fulfillment_quantity :: "(string \<rightharpoonup> string) \<Rightarrow> py_error + int" where
  "fulfillment_quantity extracted_data =
     (let qty_str = py_strip (py_remove_char (CHR ''x'') (dict_get extracted_data ''quantity'' ''1''))
      in if py_isdigit qty_str then py_int qty_str else Inr 1)"

text \<open>
  What a turn of \<open>chat\<close> answers: a reply text, the order placed by the
  FulfillmentAgent branch (medicine, strength, quantity), the message of its
  \<open>except\<close> clause, the closing offer of an order (quantity, medicine and price as
  they are printed), or the HTTP error 500 that the outer \<open>except\<close> clause raises.
\<close>

datatype chat_outcome =
  Reply string
| Order_Placed string string int
| Placing_Failed
| Order_Offer string string string
| Server_Error

datatype loop_exit = Returned chat_outcome | Left_Loop "string \<rightharpoonup> string"

text \<open>\<open>decision.message or decision.reason\<close>.\<close>

definition message_or_reason :: "agent_decision \<Rightarrow> string" where
  "message_or_reason d =
     (case ad_message d of None \<Rightarrow> ad_reason d | Some m \<Rightarrow> if m = [] then ad_reason d else m)"

definition place_order :: "(string \<rightharpoonup> string) \<Rightarrow> chat_outcome" where
  "place_order extracted_data =
     (case fulfillment_quantity extracted_data of
        Inl e \<Rightarrow> Placing_Failed
      | Inr qty \<Rightarrow> Order_Placed (dict_get extracted_data ''medicine'' ''Generic Medicine'')
                     (dict_get extracted_data ''strength'' ''Unknown'') qty)"

text \<open>
  The loop \<open>while current_decision.next_agent\<close>. The collaborators answer with the
  decisions \<open>agents 0\<close>, \<open>agents 1\<close>, ... in the order in which they are asked; \<open>i\<close> is
  the number of answers used so far. The value \<open>None\<close> stands for a loop that never ends.
\<close>

partial_function (option) handoff_loop ::
  "(nat \<Rightarrow> agent_decision) \<Rightarrow> nat \<Rightarrow> agent_decision \<Rightarrow> (string \<rightharpoonup> string) \<Rightarrow> loop_exit option" where
  "handoff_loop agents i current_decision extracted_data =
     (case ad_next_agent current_decision of
        None \<Rightarrow> Some (Left_Loop extracted_data)
      | Some next_agent_name \<Rightarrow>
          if next_agent_name = [] then Some (Left_Loop extracted_data)
          else if next_agent_name = ''InventoryAgent'' then
            (case handoff_quantity extracted_data of
               Inl e \<Rightarrow> Some (Returned Server_Error)
             | Inr qty \<Rightarrow>
                 if ad_decision (agents i) = REJECTED
                 then Some (Returned (Reply (''We cannot fulfill this. '' @ ad_reason (agents i))))
                 else handoff_loop agents (Suc i) (agents i)
                        (extracted_data ++ parse_evidence (ad_evidence (agents i))))
          else if next_agent_name = ''PolicyAgent'' then
            (case handoff_quantity extracted_data of
               Inl e \<Rightarrow> Some (Returned Server_Error)
             | Inr qty \<Rightarrow>
                 if ad_decision (agents i) = REJECTED
                 then Some (Returned (Reply (''Safety Check Failed. '' @ ad_reason (agents i))))
                 else handoff_loop agents (Suc i) (agents i) extracted_data)
          else if next_agent_name = ''RefillPredictionAgent'' then
            Some (Returned (Reply (''Refill Status: '' @ message_or_reason (agents i))))
          else if next_agent_name = ''FulfillmentAgent'' then
            Some (Returned (place_order extracted_data))
          else Some (Left_Loop extracted_data))"

text \<open>
  \<open>chat\<close>: the patient record found (or not), the decision of the PharmacistAgent and
  the later collaborator decisions are arguments.
\<close>

definition chat ::
  "patient option \<Rightarrow> agent_decision \<Rightarrow> (nat \<Rightarrow> agent_decision) \<Rightarrow> chat_outcome option" where
  "chat found first_decision agents =
     (case found of
        None \<Rightarrow> Some (Reply ''Patient not found.'')
      | Some pat \<Rightarrow>
          if ad_decision first_decision = NEEDS_INFO \<or> ad_decision first_decision = REJECTED
          then Some (Reply (message_or_reason first_decision))
          else
            (case handoff_loop agents 0 first_decision (parse_evidence (ad_evidence first_decision)) of
               None \<Rightarrow> None
             | Some (Returned outcome) \<Rightarrow> Some outcome
             | Some (Left_Loop extracted_data) \<Rightarrow>
                 if extracted_data ''medicine'' \<noteq> None
                 then Some (Order_Offer (dict_get extracted_data ''quantity'' ''30'')
                              (dict_get extracted_data ''medicine'' [])
                              (dict_get extracted_data ''price'' ''0.50''))
                 else Some (Reply (ad_reason first_decision))))"


section \<open>Example inputs\<close>

text \<open>Concrete inputs on which the model is run in the theorems below.\<close>

definition aspirin :: medicine where
  "aspirin = \<lparr> medicine_id = ''MED009'', medicine_name = ''Aspirin'', strength = ''100mg'',
               stock_level = 50, max_quantity_per_order = 30, prescription_required = False,
               controlled_substance = False, discontinued = False \<rparr>"

text \<open>A medicine that is in stock, with a maximum quantity per order of zero.\<close>

definition zero_max :: medicine where
  "zero_max = \<lparr> medicine_id = ''MED100'', medicine_name = ''Zolpidem'', strength = ''10mg'',
                stock_level = 50, max_quantity_per_order = 0, prescription_required = False,
                controlled_substance = False, discontinued = False \<rparr>"

text \<open>The scenario of the specification: ten in stock, thirty requested, at most thirty.\<close>

definition low_stock :: medicine where
  "low_stock = \<lparr> medicine_id = ''MED007'', medicine_name = ''Amoxicillin'', strength = ''500mg'',
                 stock_level = 10, max_quantity_per_order = 30, prescription_required = False,
                 controlled_substance = False, discontinued = False \<rparr>"

definition catalogue :: "string \<Rightarrow> medicine list" where
  "catalogue name =
     (if name = ''Aspirin'' then [aspirin]
      else if name = ''Zolpidem'' then [zero_max]
      else if name = ''Amoxicillin'' then [low_stock]
      else [])"

definition wants :: "string \<Rightarrow> int \<Rightarrow> extracted_entity" where
  "wants name n = \<lparr> medicine = name, dosage = None, quantity = n \<rparr>"

definition extracted :: "extracted_entity list \<Rightarrow> extraction_result" where
  "extracted es = \<lparr> entities = es, needs_clarification = False, clarification_message = [] \<rparr>"

definition request1 :: chat_request where
  "request1 = \<lparr> req_patient_id = ''PAT001'', req_message = ''order'', req_session_id = None \<rparr>"

definition patient1 :: patient where
  "patient1 = \<lparr> patient_id = ''PAT001'', patient_name = ''Asha'' \<rparr>"

definition no_previews :: "rat orchestrator" where
  "no_previews = \<lparr> pending_previews = Map.empty, session_contexts = Map.empty \<rparr>"

text \<open>Two start-order turns of the same session, one after the other.\<close>

definition first_turn :: "rat orchestrator \<times> rat chat_response" where
  "first_turn =
     handle_order exact_ops (extracted [wants ''Aspirin'' 2]) catalogue ''PRV-A'' 0
       request1 patient1 no_previews"

definition second_turn :: "rat orchestrator \<times> rat chat_response" where
  "second_turn =
     handle_order exact_ops (extracted [wants ''Amoxicillin'' 30]) catalogue ''PRV-B'' 1
       request1 patient1 (fst first_turn)"

text \<open>An order of five units of the medicine whose maximum per order is zero.\<close>

definition zero_max_turn :: "rat orchestrator \<times> rat chat_response" where
  "zero_max_turn =
     handle_order exact_ops (extracted [wants ''Zolpidem'' 5]) catalogue ''PRV-Z'' 0
       request1 patient1 no_previews"

text \<open>
  An order of seven units of a medicine the catalogue does not know, and of two Aspirin.
\<close>

definition misaligned_turn :: "rat orchestrator \<times> rat chat_response" where
  "misaligned_turn =
     handle_order exact_ops (extracted [wants ''Unknownium'' 7, wants ''Aspirin'' 2]) catalogue
       ''PRV-M'' 0 request1 patient1 no_previews"

text \<open>The back end after the first turn, and the confirmation of its preview.\<close>

definition backend1 :: "rat backend" where
  "backend1 = \<lparr> orchestrator = fst first_turn, orders = Map.empty,
                stock = [''MED009'' \<mapsto> 50] \<rparr>"

definition confirmed1 :: "rat backend \<times> rat confirmation" where
  "confirmed1 = handle_order_confirmation ''ORD-1'' request1 patient1 backend1"

definition go_ahead :: agent_decision where
  "go_ahead = \<lparr> ad_agent = ''FulfillmentAgent'', ad_decision = APPROVED, ad_reason = ''Ready'',
                ad_message = None, ad_evidence = [], ad_next_agent = None \<rparr>"

text \<open>The event log of an order in the order book (empty when there is no such order).\<close>

definition event_log :: "(string \<rightharpoonup> 'f order) \<Rightarrow> string \<Rightarrow> order_event list" where
  "event_log book oid = (case book oid of None \<Rightarrow> [] | Some ord \<Rightarrow> events ord)"

text \<open>
  Status updates that follow a confirmation, in the order in which they are asked for.
\<close>

definition later_updates ::
  "string \<Rightarrow> (order_status \<times> string) list \<Rightarrow> (string \<rightharpoonup> 'f order) \<Rightarrow> (string \<rightharpoonup> 'f order)" where
  "later_updates oid ups book = foldl (\<lambda>b (s, note). update_order_status oid s note b) book ups"

text \<open>An order whose status is the last status that its event log records.\<close>

definition coherent :: "'f order \<Rightarrow> bool" where
  "coherent ord =
     (no_regress (status_log (events ord)) \<and>
      (status_log (events ord) = [] \<or> last (status_log (events ord)) = status ord))"

text \<open>
  \<open>POST /api/orders/ORD-2/confirm\<close> on an order that has just been created, the
  fulfilment collaborator not rejecting.
\<close>

definition new_order_book :: "string \<rightharpoonup> rat order" where
  "new_order_book =
     fst (create_order ''ORD-2'' ''PAT001''
            [\<lparr> item_medicine_id = ''MED_AUTO'', item_medicine_name = ''Aspirin'',
               item_strength = ''Unknown'', item_quantity = 1, item_unit_price = 1/2,
               item_prescription_required = False \<rparr>] Map.empty)"

definition rest_confirmed :: "string \<rightharpoonup> rat order" where
  "rest_confirmed =
     (case confirm_order go_ahead ''ORD-2'' (new_order_book, Map.empty) of
        Inl e \<Rightarrow> Map.empty
      | Inr st \<Rightarrow> fst st)"

text \<open>
  A medication history read at 09:30 on 2 March 2024: a supply of 30 days bought on
  6 February 2024, 25 days before; an entry with no purchase date; a supply bought on
  2 April 2024 at 12:00, given as a \<open>datetime\<close>, 31 days in the future; and an
  entry whose purchase date is not in the format of \<open>strptime\<close>.
\<close>

definition clock_now :: datetime where
  "clock_now = make_datetime 2024 3 2 9 30 0 0"

definition bought_25_days_ago :: history_entry where
  "bought_25_days_ago =
     \<lparr> h_medicine_name = Some ''X'', h_supply_days = Some 30,
       h_purchase_date = Date_Str ''2024-02-06'' \<rparr>"

definition never_bought :: history_entry where
  "never_bought =
     \<lparr> h_medicine_name = Some ''Y'', h_supply_days = Some 30, h_purchase_date = No_Date \<rparr>"

definition bought_later :: history_entry where
  "bought_later =
     \<lparr> h_medicine_name = None, h_supply_days = None,
       h_purchase_date = Date_Time (make_datetime 2024 4 2 12 0 0 0) \<rparr>"

definition badly_dated :: history_entry where
  "badly_dated =
     \<lparr> h_medicine_name = Some ''Z'', h_supply_days = Some 30,
       h_purchase_date = Date_Str ''06/02/2024'' \<rparr>"


definition to_nobody :: agent_decision where
  "to_nobody = \<lparr> ad_agent = ''PolicyAgent'', ad_decision = APPROVED,
                 ad_reason = ''Safety checks passed.'', ad_message = None,
                 ad_evidence = [], ad_next_agent = None \<rparr>"

definition ten_aspirin :: agent_decision where
  "ten_aspirin = \<lparr> ad_agent = ''PharmacistAgent'', ad_decision = APPROVED,
                   ad_reason = ''Intent clear.'', ad_message = Some ''Checking availability...'',
                   ad_evidence = [''Medicine: Aspirin'', ''Quantity: ten''],
                   ad_next_agent = Some ''InventoryAgent'' \<rparr>"

section \<open>The deterministic refill fallback\<close>

lemma fallback_prediction_fields:
  "fallback_prediction now med t =
     \<lparr> rp_medicine = (case h_medicine_name med of None \<Rightarrow> ''Unknown'' | Some n \<Rightarrow> n),
       rp_days_remaining =
         max 0 ((case h_supply_days med of None \<Rightarrow> 30 | Some d \<Rightarrow> d) - (now - t) div 86400000000),
       rp_action =
         (if (case h_supply_days med of None \<Rightarrow> 30 | Some d \<Rightarrow> d) - (now - t) div 86400000000 \<le> 5
          then REMIND else NONE),
       rp_confidence = 1,
       rp_reason = ''Deterministic calculation'' \<rparr>"
  by (auto simp: fallback_prediction_def timedelta_days_def Let_def)

lemma resolve_purchase_date_cases:
  "resolve_purchase_date No_Date = Inr None"
  "resolve_purchase_date (Date_Time t) = Inr (Some t)"
  "strptime_ymd s = Inr t \<Longrightarrow> resolve_purchase_date (Date_Str s) = Inr (Some t)"
  "strptime_ymd s = Inl e \<Longrightarrow> resolve_purchase_date (Date_Str s) = Inl e"
  by (simp_all add: resolve_purchase_date_def)

lemma fallback_loop_acc:
  "fallback_loop now history acc =
     (if \<exists>med\<in>set history. \<exists>s. h_purchase_date med = Date_Str s \<and> isl (strptime_ymd s)
      then Inl ValueError
      else Inr (acc @ concat (map (\<lambda>med.
              case h_purchase_date med of
                No_Date \<Rightarrow> []
              | Date_Time t \<Rightarrow> [fallback_prediction now med t]
              | Date_Str s \<Rightarrow> (case strptime_ymd s of
                                Inr t \<Rightarrow> [fallback_prediction now med t]
                              | Inl e \<Rightarrow> [])) history)))"
proof (induction history arbitrary: acc)
  case Nil
  then show ?case by simp
next
  case (Cons med rest)
  show ?case
  proof (cases "h_purchase_date med")
    case No_Date
    then show ?thesis by (simp add: Cons resolve_purchase_date_cases)
  next
    case (Date_Time t)
    then show ?thesis by (simp add: Cons resolve_purchase_date_cases)
  next
    case (Date_Str s)
    show ?thesis
    proof (cases "strptime_ymd s")
      case (Inl e)
      then have "e = ValueError" by (cases e) simp
      with Inl Date_Str show ?thesis by (auto simp: resolve_purchase_date_cases)
    next
      case (Inr t)
      with Date_Str show ?thesis by (simp add: Cons resolve_purchase_date_cases)
    qed
  qed
qed

text \<open>
  Claim C8, as amended. When every purchase date that the history gives as text is a
  date in the format of \<open>strptime\<close>, the fallback returns one prediction for each
  entry that has a purchase date, in the order of the history: its days remaining are
  \<open>max(0, supply_days - days since purchase)\<close> (the supply defaulting to 30, the days
  since purchase being whole days), its action is REMIND when at most five days remain
  and NONE otherwise, its confidence is 1.0 and its reason is "Deterministic
  calculation"; entries without a purchase date yield no prediction. When some purchase
  date given as text is not such a date, the fallback raises ValueError and returns no
  prediction at all.
\<close>

theorem refill_fallback_deterministic:
  "fallback_calculation now history =
     (if \<exists>med\<in>set history. \<exists>s. h_purchase_date med = Date_Str s \<and> isl (strptime_ymd s)
      then Inl ValueError
      else Inr (concat (map (\<lambda>med.
              let supply = (case h_supply_days med of None \<Rightarrow> 30 | Some d \<Rightarrow> d);
                  prediction = (\<lambda>t.
                    \<lparr> rp_medicine = (case h_medicine_name med of None \<Rightarrow> ''Unknown'' | Some n \<Rightarrow> n),
                      rp_days_remaining = max 0 (supply - (now - t) div 86400000000),
                      rp_action = (if supply - (now - t) div 86400000000 \<le> 5 then REMIND else NONE),
                      rp_confidence = 1,
                      rp_reason = ''Deterministic calculation'' \<rparr>)
              in case h_purchase_date med of
                   No_Date \<Rightarrow> []
                 | Date_Time t \<Rightarrow> [prediction t]
                 | Date_Str s \<Rightarrow> (case strptime_ymd s of
                                   Inr t \<Rightarrow> [prediction t]
                                 | Inl e \<Rightarrow> [])) history)))"
  unfolding fallback_calculation_def fallback_loop_acc fallback_prediction_fields Let_def
  by simp


lemma strptime_example:
  "strptime_ymd ''2024-02-06'' = Inr (make_datetime 2024 2 6 0 0 0 0)"
  by (simp add: strptime_ymd_def parse_year_def parse_hyphen_def char_in_def
      py_is_digit_char_def digits_value_def digit_val_def days_in_month_def)

lemma strptime_bad_example:
  "strptime_ymd ''06/02/2024'' = Inl ValueError"
  by (simp add: strptime_ymd_def parse_year_def py_is_digit_char_def)

lemma days_examples:
  "(clock_now - make_datetime 2024 2 6 0 0 0 0) div 86400000000 = 25"
  "(clock_now - make_datetime 2024 4 2 12 0 0 0) div 86400000000 = - 32"
  by (simp_all add: clock_now_def make_datetime_def days_before_month_def days_in_month_def
      days_before_year_def is_leap_def upt_rec)

text \<open>
  The scenario of the claim, with the purchase date as the text that the order history
  stores: a supply of 30 days bought 25 days (and some hours) ago has 5 days remaining
  and the action REMIND.
\<close>

theorem refill_fallback_deterministic_witness:
  "strptime_ymd ''2024-02-06'' = Inr (make_datetime 2024 2 6 0 0 0 0) \<and>
   fallback_calculation clock_now [bought_25_days_ago, never_bought, bought_later] =
     Inr [\<lparr> rp_medicine = ''X'', rp_days_remaining = 5, rp_action = REMIND,
            rp_confidence = 1, rp_reason = ''Deterministic calculation'' \<rparr>,
          \<lparr> rp_medicine = ''Unknown'', rp_days_remaining = 62, rp_action = NONE,
            rp_confidence = 1, rp_reason = ''Deterministic calculation'' \<rparr>]"
  using refill_fallback_deterministic
          [of clock_now "[bought_25_days_ago, never_bought, bought_later]"]
  by (simp add: bought_25_days_ago_def never_bought_def bought_later_def
      strptime_example days_examples Let_def)

text \<open>
  Claim C8 as stated fails: the first entry has a purchase date, 25 days back, and gets
  no prediction, because the purchase date of another entry does not parse.
\<close>

theorem refill_fallback_counterexample:
  "strptime_ymd ''2024-02-06'' = Inr (make_datetime 2024 2 6 0 0 0 0) \<and>
   fallback_calculation clock_now [bought_25_days_ago, badly_dated] = Inl ValueError"
  by (simp add: fallback_calculation_def resolve_purchase_date_def bought_25_days_ago_def
      badly_dated_def strptime_example strptime_bad_example)

section \<open>One pending preview per session\<close>

lemma handle_order_preview:
  assumes "order_preview (snd (handle_order ops extraction search_medicine new_id now request pat st)) = Some p"
  shows "fst (handle_order ops extraction search_medicine new_id now request pat st) =
           st\<lparr> pending_previews := (pending_previews st)(new_id \<mapsto> p),
               session_contexts := (session_contexts st)(session_key request \<mapsto> new_id) \<rparr>"
    and "preview_id p = new_id"
    and "total_amount p = py_round2 ops (subtotal ops (items p))"
    and "items p = map (set_price ops)
           (build_items ops
              (allowed_quantity (perform_safety_checks (entities extraction)
                 (match_medicines search_medicine (entities extraction)) False))
              (entities extraction) (match_medicines search_medicine (entities extraction)))"
  using assms
  by (auto simp: handle_order_def Let_def plain_response_def split: if_splits)

lemma first_turn_preview:
  "order_preview (snd first_turn) =
     Some \<lparr> preview_id = ''PRV-A'', preview_patient_id = ''PAT001'',
            preview_patient_name = ''Asha'',
            items = [\<lparr> item_medicine_id = ''MED009'', item_medicine_name = ''Aspirin'',
                       item_strength = ''100mg'', item_quantity = 2, item_unit_price = 1/10,
                       item_prescription_required = False \<rparr>],
            total_amount = 1/5, safety_decision = APPROVE,
            safety_reasons = [''All safety checks passed.''],
            preview_requires_prescription = False, created_at = 0 \<rparr>"
  by code_simp

lemma second_turn_preview:
  "order_preview (snd second_turn) =
     Some \<lparr> preview_id = ''PRV-B'', preview_patient_id = ''PAT001'',
            preview_patient_name = ''Asha'',
            items = [\<lparr> item_medicine_id = ''MED007'', item_medicine_name = ''Amoxicillin'',
                       item_strength = ''500mg'', item_quantity = 10, item_unit_price = 7/20,
                       item_prescription_required = False \<rparr>],
            total_amount = 7/2, safety_decision = CONDITIONAL,
            safety_reasons = [''Limited stock available for Amoxicillin. Maximum quantity: 10''],
            preview_requires_prescription = False, created_at = 1 \<rparr>"
  by code_simp

text \<open>
  Claim C1. After two start-order turns of the same session that both build a preview,
  with no confirmation or cancellation in between, the session points to exactly one
  pending preview id, that of the second turn, and this id retrieves the second
  preview. The second turn has replaced the pointer that the first turn had set; the
  preview of the first turn is still in the store under its own id (the two ids being
  different).
\<close>

theorem one_pending_preview_per_session:
  assumes "order_preview (snd (handle_order ops ex1 search1 id1 now1 req1 pat1 st0)) = Some p1"
      and "order_preview (snd (handle_order ops ex2 search2 id2 now2 req2 pat2
              (fst (handle_order ops ex1 search1 id1 now1 req1 pat1 st0)))) = Some p2"
      and "session_key req2 = session_key req1"
  shows "session_contexts (fst (handle_order ops ex1 search1 id1 now1 req1 pat1 st0))
           (session_key req1) = Some id1 \<and>
         session_contexts (fst (handle_order ops ex2 search2 id2 now2 req2 pat2
              (fst (handle_order ops ex1 search1 id1 now1 req1 pat1 st0))))
           (session_key req1) = Some id2 \<and>
         pending_previews (fst (handle_order ops ex2 search2 id2 now2 req2 pat2
              (fst (handle_order ops ex1 search1 id1 now1 req1 pat1 st0)))) id2 = Some p2 \<and>
         (id1 \<noteq> id2 \<longrightarrow>
            pending_previews (fst (handle_order ops ex2 search2 id2 now2 req2 pat2
              (fst (handle_order ops ex1 search1 id1 now1 req1 pat1 st0)))) id1 = Some p1)"
proof -
  have s1: "fst (handle_order ops ex1 search1 id1 now1 req1 pat1 st0) =
      st0\<lparr> pending_previews := (pending_previews st0)(id1 \<mapsto> p1),
           session_contexts := (session_contexts st0)(session_key req1 \<mapsto> id1) \<rparr>"
    by (rule handle_order_preview(1) [OF assms(1)])
  have s2: "fst (handle_order ops ex2 search2 id2 now2 req2 pat2
              (fst (handle_order ops ex1 search1 id1 now1 req1 pat1 st0))) =
      (fst (handle_order ops ex1 search1 id1 now1 req1 pat1 st0))
        \<lparr> pending_previews :=
            (pending_previews (fst (handle_order ops ex1 search1 id1 now1 req1 pat1 st0)))
              (id2 \<mapsto> p2),
          session_contexts :=
            (session_contexts (fst (handle_order ops ex1 search1 id1 now1 req1 pat1 st0)))
              (session_key req2 \<mapsto> id2) \<rparr>"
    by (rule handle_order_preview(1) [OF assms(2)])
  show ?thesis
    by (simp only: s2) (simp add: s1 assms(3))
qed

theorem one_pending_preview_per_session_witness:
  "order_preview (snd first_turn) \<noteq> None \<and>
   order_preview (snd second_turn) \<noteq> None \<and>
   session_contexts (fst first_turn) ''PAT001'' = Some ''PRV-A'' \<and>
   session_contexts (fst second_turn) ''PAT001'' = Some ''PRV-B'' \<and>
   map_option preview_id (pending_previews (fst second_turn) ''PRV-B'') = Some ''PRV-B'' \<and>
   map_option preview_id (pending_previews (fst second_turn) ''PRV-A'') = Some ''PRV-A''"
proof -
  obtain p1 where p1: "order_preview (snd first_turn) = Some p1" and id1: "preview_id p1 = ''PRV-A''"
    using first_turn_preview by simp
  obtain p2 where p2: "order_preview (snd second_turn) = Some p2" and id2: "preview_id p2 = ''PRV-B''"
    using second_turn_preview by simp
  have key: "session_key request1 = ''PAT001''"
    by (simp add: session_key_def request1_def)
  show ?thesis
    using one_pending_preview_per_session
            [OF p1 [unfolded first_turn_def] p2 [unfolded second_turn_def first_turn_def] refl]
    by (simp add: p1 p2 id1 id2 key first_turn_def [symmetric] second_turn_def [symmetric])
qed

section \<open>The total of a preview\<close>

text \<open>
  Claim C5. Every preview that the order pipeline builds and stores has as its total
  the sum of unit price times quantity over its own items, rounded to two decimals.
\<close>

theorem preview_total_is_rounded_sum:
  assumes "order_preview (snd (handle_order ops extraction search_medicine new_id now request pat st)) = Some p"
  shows "total_amount p =
           py_round2 ops
             (float_sum ops
                (map (\<lambda>item. float_mul ops (item_unit_price item)
                                 (float_of_int ops (item_quantity item))) (items p))) \<and>
         pending_previews (fst (handle_order ops extraction search_medicine new_id now request pat st))
           new_id = Some p"
  using handle_order_preview(3) [OF assms]
  by (simp add: handle_order_preview(1) [OF assms] subtotal_def)

theorem preview_total_is_rounded_sum_witness:
  "order_preview (snd second_turn) \<noteq> None \<and>
   map_option total_amount (order_preview (snd second_turn)) = Some (7/2) \<and>
   map_option total_amount (pending_previews (fst second_turn) ''PRV-B'') =
     Some (py_round2 exact_ops (float_sum exact_ops
            [float_mul exact_ops (float_lit exact_ops 35 2) (float_of_int exact_ops 10)]))"
proof -
  obtain p where p: "order_preview (snd second_turn) = Some p"
    and its: "items p = [\<lparr> item_medicine_id = ''MED007'', item_medicine_name = ''Amoxicillin'',
                       item_strength = ''500mg'', item_quantity = 10, item_unit_price = 7/20,
                       item_prescription_required = False \<rparr>]"
    and tot: "total_amount p = 7/2"
    using second_turn_preview by simp
  show ?thesis
    using preview_total_is_rounded_sum [OF p [unfolded second_turn_def first_turn_def]]
    by (simp add: p its tot second_turn_def [symmetric] first_turn_def [symmetric])
       (simp add: exact_ops_def)
qed

section \<open>The quantities of a preview\<close>

text \<open>
  The quantities of the items: entity and matched medicine are paired by index, the
  quantity is the one of the entity at that index (30 when it is not positive), cut
  down to the cap when the cap is neither \<open>None\<close> nor zero.
\<close>

lemma build_items_quantities:
  "map item_quantity (map (set_price ops) (build_items ops allowed es ms)) =
     map (\<lambda>(entity, med). resolved_quantity allowed entity) (zip es ms)"
  by (induction ops allowed es ms rule: build_items.induct)
     (simp_all add: set_price_def make_item_def)

lemma resolved_quantity_cases:
  "resolved_quantity None e = (if quantity e > 0 then quantity e else 30)"
  "resolved_quantity (Some 0) e = (if quantity e > 0 then quantity e else 30)"
  "cap \<noteq> 0 \<Longrightarrow> resolved_quantity (Some cap) e = min (if quantity e > 0 then quantity e else 30) cap"
  by (simp_all add: resolved_quantity_def)

text \<open>
  Claim C6. Each matched item's quantity is the requested quantity of its entity (30
  when that is not above zero), and the minimum of it and the cap when the evaluator
  produced one. The code departs from this on two inputs. When the first entity has no
  catalogue match, the Aspirin of the second entity (2 requested) is paired with the
  first entity and gets its quantity 7. When the evaluator's cap is 0, the test
  \<open>if safety_result.allowed_quantity\<close> takes it for no cap and the quantity stays 5.
\<close>

theorem preview_quantity_divergence:
  "map_option (\<lambda>p. map (\<lambda>item. (item_medicine_name item, item_quantity item)) (items p))
     (order_preview (snd misaligned_turn)) = Some [(''Aspirin'', 7)] \<and>
   map_option allowed_quantity (safety_result (snd zero_max_turn)) = Some (Some 0) \<and>
   map_option (\<lambda>p. map (\<lambda>item. (item_medicine_name item, item_quantity item)) (items p))
     (order_preview (snd zero_max_turn)) = Some [(''Zolpidem'', 5)]"
  by code_simp

section \<open>The rule evaluator\<close>

lemma check_medicine_blocked:
  "sv_blocked_items (check_medicine hp req m v) =
     (if discontinued m \<or> stock_level m = 0 then sv_blocked_items v @ [medicine_name m]
      else sv_blocked_items v)"
  by (simp add: check_medicine_def check_controlled_def check_prescription_def check_stock_def
      check_max_quantity_def Let_def)

lemma safety_loop_blocked_count:
  "length (sv_blocked_items (safety_loop hp es i ms v)) =
     length (sv_blocked_items v) + length (filter (\<lambda>m. discontinued m \<or> stock_level m = 0) ms)"
  by (induction ms arbitrary: i v) (simp_all add: check_medicine_blocked)

lemma all_blocked_iff:
  "length (filter P ms) = length ms \<longleftrightarrow> (\<forall>m\<in>set ms. P m)"
proof (induction ms)
  case Nil
  then show ?case by simp
next
  case (Cons m ms)
  show ?case
  proof (cases "P m")
    case True
    with Cons show ?thesis by simp
  next
    case False
    have "length (filter P ms) < Suc (length ms)"
      using length_filter_le [of P ms] by linarith
    with False show ?thesis by simp
  qed
qed

lemma decide_cases:
  assumes "(sv_blocked_items v \<noteq> [] \<and> length (sv_blocked_items v) = n) \<longleftrightarrow> all_blocked"
  shows "decide hp n v =
     (if all_blocked then REJECT
      else if sv_blocked_items v \<noteq> [] \<or> (sv_requires_prescription v \<and> \<not> hp) \<or>
              sv_requires_followup v \<or> truthy_int (sv_allowed_quantity v)
        then CONDITIONAL
      else APPROVE)"
  using assms unfolding decide_def by (cases all_blocked) auto

text \<open>
  The aggregated decision for a non-empty list of matched medicines, as the code
  computes it: the cap counts only when it is neither \<open>None\<close> nor zero.
\<close>

lemma decision_aggregation:
  assumes "ms \<noteq> []"
  shows "decision (perform_safety_checks es ms hp) =
     (if \<forall>m\<in>set ms. discontinued m \<or> stock_level m = 0 then REJECT
      else if blocked_items (perform_safety_checks es ms hp) \<noteq> [] \<or>
              (requires_prescription (perform_safety_checks es ms hp) \<and> \<not> hp) \<or>
              requires_followup (perform_safety_checks es ms hp) \<or>
              truthy_int (allowed_quantity (perform_safety_checks es ms hp))
        then CONDITIONAL
      else APPROVE)"
proof -
  define v where "v = safety_loop hp es 0 ms initial_vars"
  have n: "length (sv_blocked_items v) = length (filter (\<lambda>m. discontinued m \<or> stock_level m = 0) ms)"
    by (simp add: v_def safety_loop_blocked_count initial_vars_def)
  have iff: "(sv_blocked_items v \<noteq> [] \<and> length (sv_blocked_items v) = length ms) \<longleftrightarrow>
        (\<forall>m\<in>set ms. discontinued m \<or> stock_level m = 0)"
    using assms n all_blocked_iff [of "\<lambda>m. discontinued m \<or> stock_level m = 0" ms]
    by (cases "sv_blocked_items v") auto
  have fields: "decision (perform_safety_checks es ms hp) = decide hp (length ms) v"
    "blocked_items (perform_safety_checks es ms hp) = sv_blocked_items v"
    "requires_prescription (perform_safety_checks es ms hp) = sv_requires_prescription v"
    "requires_followup (perform_safety_checks es ms hp) = sv_requires_followup v"
    "allowed_quantity (perform_safety_checks es ms hp) = sv_allowed_quantity v"
    by (simp_all add: perform_safety_checks_def Let_def v_def)
  show ?thesis
    unfolding fields by (rule decide_cases [OF iff])
qed

lemma default_reason:
  "reasons (perform_safety_checks es ms hp) \<noteq> []" if "decision (perform_safety_checks es ms hp) = APPROVE"
  using that by (simp add: perform_safety_checks_def Let_def)

text \<open>
  Claim C3. The decision is REJECT when every matched item is blocked, otherwise
  CONDITIONAL when an item is blocked, a prescription is missing, a follow-up is
  required or a cap was imposed, otherwise APPROVE. The code departs from this when
  the cap imposed is 0: five units of a medicine in stock whose maximum per order is 0
  are approved, with the cap 0 set and the reason that the maximum is 0.
\<close>

theorem zero_cap_approved:
  "decision (perform_safety_checks [wants ''Zolpidem'' 5] [zero_max] False) = APPROVE \<and>
   allowed_quantity (perform_safety_checks [wants ''Zolpidem'' 5] [zero_max] False) = Some 0 \<and>
   reasons (perform_safety_checks [wants ''Zolpidem'' 5] [zero_max] False) =
     [''Maximum quantity per order for Zolpidem is 0'']"
  by code_simp

text \<open>
  The two caps of an item that is not discontinued and in stock. The second one is set
  when the cap so far is \<open>None\<close> or zero.
\<close>

lemma check_medicine_stock_cap:
  assumes "\<not> discontinued m" and "0 < stock_level m" and "stock_level m < req"
  shows "sv_allowed_quantity (check_medicine hp req m v) =
           Some (min (stock_level m) (max_quantity_per_order m))"
  using assms
  by (auto simp: check_medicine_def check_controlled_def check_prescription_def check_stock_def
      check_max_quantity_def Let_def truthy_int_def min_def)

lemma check_medicine_max_cap:
  assumes "\<not> discontinued m" and "0 < stock_level m" and "req \<le> stock_level m"
      and "max_quantity_per_order m < req"
  shows "sv_allowed_quantity (check_medicine hp req m v) =
           (case sv_allowed_quantity v of
              None \<Rightarrow> Some (max_quantity_per_order m)
            | Some cap \<Rightarrow> if cap = 0 then Some (max_quantity_per_order m) else Some cap)"
  using assms
  by (auto simp: check_medicine_def check_controlled_def check_prescription_def check_stock_def
      check_max_quantity_def Let_def truthy_int_def split: option.splits)

lemma low_stock_scenario:
  "perform_safety_checks [wants ''Amoxicillin'' 30] [low_stock] False =
     \<lparr> decision = CONDITIONAL,
       reasons = [''Limited stock available for Amoxicillin. Maximum quantity: 10''],
       allowed_quantity = Some 10, requires_followup = False,
       requires_prescription = False, blocked_items = [] \<rparr>"
  by code_simp

text \<open>
  Claim C4. For an item that is not discontinued and in stock, the cap becomes
  \<open>min(stock_level, max_quantity_per_order)\<close> when the stock is below the
  requested quantity, and \<open>max_quantity_per_order\<close>, only if no cap was set yet,
  when the requested quantity exceeds it. The code departs from this when the cap set
  so far is 0: the first medicine sets the cap 0, and the second medicine (40 requested,
  at most 30) replaces it by 30.
\<close>

theorem zero_cap_overwritten:
  "sv_allowed_quantity (check_medicine False 5 zero_max initial_vars) = Some 0 \<and>
   sv_allowed_quantity
     (check_medicine False 40 aspirin (check_medicine False 5 zero_max initial_vars)) = Some 30 \<and>
   allowed_quantity
     (perform_safety_checks [wants ''Zolpidem'' 5, wants ''Aspirin'' 40] [zero_max, aspirin] False)
     = Some 30"
  by code_simp

section \<open>Cancellation\<close>

lemma cancel_idempotent:
  "handle_order_cancellation request (fst (handle_order_cancellation request st)) =
     handle_order_cancellation request st"
  by (auto simp: handle_order_cancellation_def Let_def split: option.splits)

lemma cancel_discards:
  assumes "session_contexts st (session_key request) = Some pid" and "pid \<noteq> []"
  shows "session_contexts (fst (handle_order_cancellation request st)) (session_key request) = None"
    and "pending_previews (fst (handle_order_cancellation request st)) pid = None"
  using assms
  by (auto simp: handle_order_cancellation_def Let_def split: option.splits)

lemma cancel_nothing_pending:
  assumes "session_contexts st (session_key request) = None"
  shows "fst (handle_order_cancellation request st) = st"
  using assms by (simp add: handle_order_cancellation_def Let_def)

text \<open>
  Claim C7. Cancelling is idempotent and never an error; with no pending preview it
  changes no state and tells the user that there is nothing to cancel. The code
  departs from the last part: for a session with nothing pending the state is
  unchanged, and the reply is that the order has been cancelled.
\<close>

theorem cancel_without_pending_says_cancelled:
  "fst (handle_order_cancellation request1 no_previews) = no_previews \<and>
   message (snd (handle_order_cancellation request1 no_previews)) =
     ''Your order has been cancelled. Is there anything else I can help you with?''"
  by (simp add: handle_order_cancellation_def Let_def no_previews_def plain_response_def
      cancelled_message_def)

section \<open>The order lifecycle\<close>

lemma status_log_append: "status_log (es @ fs) = status_log es @ status_log fs"
  by (induction es rule: status_log.induct) simp_all

lemma occurs_in_order_append: "occurs_in_order xs ys \<Longrightarrow> occurs_in_order xs (ys @ zs)"
  by (induction xs ys rule: occurs_in_order.induct) (auto split: if_splits)

lemma no_regress_snoc:
  assumes "no_regress xs" and "xs \<noteq> [] \<Longrightarrow> transition_allowed (last xs) s"
  shows "no_regress (xs @ [s])"
  using assms
  by (induction xs rule: no_regress.induct) (auto simp: transition_allowed_def)

lemma update_order_status_coherent:
  assumes "book oid = Some ord" and "coherent ord"
  shows "\<exists>ord' ext. update_order_status oid s remark book oid = Some ord' \<and> coherent ord' \<and>
           status_log (events ord') = status_log (events ord) @ ext"
proof (cases "transition_allowed (status ord) s")
  case False
  with assms show ?thesis by (auto simp: update_order_status_def)
next
  case True
  have "no_regress (status_log (events ord) @ [s])"
    using assms(2) True by (intro no_regress_snoc) (auto simp: coherent_def)
  with assms(1) True show ?thesis
    by (auto simp: update_order_status_def coherent_def status_log_append)
qed

lemma later_updates_coherent:
  assumes "book oid = Some ord" and "coherent ord"
  shows "\<exists>ord' ext. later_updates oid ups book oid = Some ord' \<and> coherent ord' \<and>
           status_log (events ord') = status_log (events ord) @ ext"
  using assms
proof (induction ups arbitrary: book ord)
  case Nil
  then show ?case by (simp add: later_updates_def)
next
  case (Cons u ups)
  obtain s remark where u: "u = (s, remark)" by (cases u)
  from update_order_status_coherent [of book oid ord s remark] Cons.prems
  obtain ord1 ext1 where 1: "update_order_status oid s remark book oid = Some ord1"
    "coherent ord1" "status_log (events ord1) = status_log (events ord) @ ext1"
    by blast
  from Cons.IH [of "update_order_status oid s remark book" ord1] 1(1) 1(2)
  obtain ord2 ext2 where 2: "later_updates oid ups (update_order_status oid s remark book) oid = Some ord2"
    "coherent ord2" "status_log (events ord2) = status_log (events ord1) @ ext2"
    by blast
  have "later_updates oid (u # ups) book = later_updates oid ups (update_order_status oid s remark book)"
    by (simp add: later_updates_def u)
  with 1 2 show ?case by simp
qed

lemma later_updates_lifecycle:
  assumes "book oid = Some ord" and "coherent ord"
      and "occurs_in_order [VALIDATED, CONFIRMED, PROCESSING] (status_log (events ord))"
  shows "monotonic_lifecycle (event_log (later_updates oid ups book) oid)"
proof -
  from later_updates_coherent [of book oid ord ups] assms(1,2)
  obtain ord' ext where "later_updates oid ups book oid = Some ord'" "coherent ord'"
    "status_log (events ord') = status_log (events ord) @ ext"
    by blast
  with assms(3) show ?thesis
    by (simp add: monotonic_lifecycle_def event_log_def coherent_def occurs_in_order_append)
qed

lemma handler_confirms:
  assumes "session_contexts (orchestrator st) (session_key request) = Some pid"
      and "pid \<noteq> []"
      and "pending_previews (orchestrator st) pid = Some preview"
  shows "\<exists>ord. snd (handle_order_confirmation new_order_id request pat st) = Order_Confirmed ord \<and>
           orders (fst (handle_order_confirmation new_order_id request pat st)) new_order_id = Some ord \<and>
           status ord = PROCESSING \<and>
           order_items ord = items preview \<and>
           events ord =
             [Side_Event Safety_Validation,
              Status_Event VALIDATED ''Safety validation completed'',
              Side_Event Order_Confirmation,
              Status_Event CONFIRMED ''Order confirmed by patient'',
              Side_Event (Inventory_Update
                (foldl (\<lambda>n item. n + item_quantity item) 0 (items preview))),
              Side_Event Fulfillment_Initiation,
              Status_Event PROCESSING ''Order is being processed for delivery''] \<and>
           session_contexts (orchestrator (fst (handle_order_confirmation new_order_id request pat st)))
             (session_key request) = None \<and>
           pending_previews (orchestrator (fst (handle_order_confirmation new_order_id request pat st)))
             pid = None"
  using assms
  by (simp add: handle_order_confirmation_def create_order_def Let_def
      update_order_status_def record_side_event_def transition_allowed_def)

lemma rest_confirm_pending:
  assumes "book oid = Some ord" and "status ord = PENDING"
      and "ad_decision d \<noteq> REJECTED"
  shows "\<exists>book' stock'. confirm_order d oid (book, levels) = Inr (book', stock') \<and>
           event_log book' oid =
             events ord @ [Status_Event CONFIRMED ''Order confirmed'',
                           Status_Event PREPARING ''Preparing order'',
                           Status_Event SHIPPED ''Order dispatched from warehouse'']"
  using assms
  by (simp add: confirm_order_def Let_def update_order_status_def transition_allowed_def
      event_log_def)


lemma first_turn_stored:
  "pending_previews (fst first_turn) ''PRV-A'' \<noteq> None"
  by code_simp

lemma backend1_pending:
  "session_contexts (orchestrator backend1) (session_key request1) = Some ''PRV-A''"
  by code_simp

lemma new_order_pending:
  "map_option status (new_order_book ''ORD-2'') = Some PENDING"
  "map_option events (new_order_book ''ORD-2'') = Some []"
  by (simp_all add: new_order_book_def create_order_def Let_def)

text \<open>
  Claim C2, as amended. An order confirmed through the session's confirmation handler
  has, at the end of that operation, the status PROCESSING and an event log with the
  transitions VALIDATED, CONFIRMED and PROCESSING as three status entries in this
  order, the inventory update recorded as a side event between CONFIRMED and
  PROCESSING; whatever status updates follow, its log keeps these three entries in
  order and no status regresses except to CANCELLED. The handler also clears the
  pending preview of the session. An order that is PENDING and is confirmed through
  \<open>POST /api/orders/{id}/confirm\<close>, the fulfilment decision not being a rejection,
  records CONFIRMED, PREPARING and SHIPPED instead.
\<close>

theorem confirmation_records_three_transitions:
  "(session_contexts (orchestrator st) (session_key request) = Some pid \<and> pid \<noteq> [] \<and>
    pending_previews (orchestrator st) pid = Some preview \<longrightarrow>
      (\<exists>ord. snd (handle_order_confirmation new_order_id request pat st) = Order_Confirmed ord \<and>
         orders (fst (handle_order_confirmation new_order_id request pat st)) new_order_id = Some ord \<and>
         status ord = PROCESSING \<and>
         order_items ord = items preview \<and>
         events ord =
           [Side_Event Safety_Validation,
            Status_Event VALIDATED ''Safety validation completed'',
            Side_Event Order_Confirmation,
            Status_Event CONFIRMED ''Order confirmed by patient'',
            Side_Event (Inventory_Update
              (foldl (\<lambda>n item. n + item_quantity item) 0 (items preview))),
            Side_Event Fulfillment_Initiation,
            Status_Event PROCESSING ''Order is being processed for delivery''] \<and>
         status_log (events ord) = [VALIDATED, CONFIRMED, PROCESSING]) \<and>
      (\<forall>ups. monotonic_lifecycle
         (event_log (later_updates new_order_id ups
            (orders (fst (handle_order_confirmation new_order_id request pat st)))) new_order_id)) \<and>
      session_contexts (orchestrator (fst (handle_order_confirmation new_order_id request pat st)))
        (session_key request) = None \<and>
      pending_previews (orchestrator (fst (handle_order_confirmation new_order_id request pat st)))
        pid = None) \<and>
   (book oid = Some pending \<and> status pending = PENDING \<and> ad_decision d \<noteq> REJECTED \<longrightarrow>
      (\<exists>book' stock'. confirm_order d oid (book, levels) = Inr (book', stock') \<and>
         event_log book' oid =
           events pending @ [Status_Event CONFIRMED ''Order confirmed'',
                             Status_Event PREPARING ''Preparing order'',
                             Status_Event SHIPPED ''Order dispatched from warehouse'']))"
proof (intro conjI impI)
  assume a: "session_contexts (orchestrator st) (session_key request) = Some pid \<and> pid \<noteq> [] \<and>
    pending_previews (orchestrator st) pid = Some preview"
  from handler_confirms [of st request pid preview new_order_id pat] a
  obtain ord where ord:
    "snd (handle_order_confirmation new_order_id request pat st) = Order_Confirmed ord"
    "orders (fst (handle_order_confirmation new_order_id request pat st)) new_order_id = Some ord"
    "status ord = PROCESSING"
    "order_items ord = items preview"
    "events ord =
           [Side_Event Safety_Validation,
            Status_Event VALIDATED ''Safety validation completed'',
            Side_Event Order_Confirmation,
            Status_Event CONFIRMED ''Order confirmed by patient'',
            Side_Event (Inventory_Update
              (foldl (\<lambda>n item. n + item_quantity item) 0 (items preview))),
            Side_Event Fulfillment_Initiation,
            Status_Event PROCESSING ''Order is being processed for delivery'']"
    and cleared:
    "session_contexts (orchestrator (fst (handle_order_confirmation new_order_id request pat st)))
        (session_key request) = None"
    "pending_previews (orchestrator (fst (handle_order_confirmation new_order_id request pat st)))
        pid = None"
    by blast
  have sl: "status_log (events ord) = [VALIDATED, CONFIRMED, PROCESSING]"
    by (simp add: ord(5))
  have co: "coherent ord"
    by (simp add: coherent_def sl ord(3))
  show "\<exists>ord. snd (handle_order_confirmation new_order_id request pat st) = Order_Confirmed ord \<and>
         orders (fst (handle_order_confirmation new_order_id request pat st)) new_order_id = Some ord \<and>
         status ord = PROCESSING \<and>
         order_items ord = items preview \<and>
         events ord =
           [Side_Event Safety_Validation,
            Status_Event VALIDATED ''Safety validation completed'',
            Side_Event Order_Confirmation,
            Status_Event CONFIRMED ''Order confirmed by patient'',
            Side_Event (Inventory_Update
              (foldl (\<lambda>n item. n + item_quantity item) 0 (items preview))),
            Side_Event Fulfillment_Initiation,
            Status_Event PROCESSING ''Order is being processed for delivery''] \<and>
         status_log (events ord) = [VALIDATED, CONFIRMED, PROCESSING]"
    using ord sl by blast
  show "\<forall>ups. monotonic_lifecycle
         (event_log (later_updates new_order_id ups
            (orders (fst (handle_order_confirmation new_order_id request pat st)))) new_order_id)"
    using later_updates_lifecycle
            [of "orders (fst (handle_order_confirmation new_order_id request pat st))"
                new_order_id ord] ord(2) co sl
    by simp
  show "session_contexts (orchestrator (fst (handle_order_confirmation new_order_id request pat st)))
        (session_key request) = None"
    by (rule cleared(1))
  show "pending_previews (orchestrator (fst (handle_order_confirmation new_order_id request pat st)))
        pid = None"
    by (rule cleared(2))
next
  assume "book oid = Some pending \<and> status pending = PENDING \<and> ad_decision d \<noteq> REJECTED"
  then show "\<exists>book' stock'. confirm_order d oid (book, levels) = Inr (book', stock') \<and>
         event_log book' oid =
           events pending @ [Status_Event CONFIRMED ''Order confirmed'',
                             Status_Event PREPARING ''Preparing order'',
                             Status_Event SHIPPED ''Order dispatched from warehouse'']"
    using rest_confirm_pending [of book oid pending d levels] by blast
qed

theorem confirmation_records_three_transitions_witness:
  "session_contexts (orchestrator backend1) (session_key request1) = Some ''PRV-A'' \<and>
   pending_previews (orchestrator backend1) ''PRV-A'' \<noteq> None \<and>
   status_log (event_log (orders (fst confirmed1)) ''ORD-1'') = [VALIDATED, CONFIRMED, PROCESSING] \<and>
   monotonic_lifecycle
     (event_log (later_updates ''ORD-1''
        [(CONFIRMED, ''Order confirmed''), (PREPARING, ''Preparing order''),
         (PROCESSING, ''Order received by warehouse, processing for shipment'')]
        (orders (fst confirmed1))) ''ORD-1'') \<and>
   map_option status (new_order_book ''ORD-2'') = Some PENDING \<and>
   ad_decision go_ahead \<noteq> REJECTED \<and>
   event_log rest_confirmed ''ORD-2'' =
     [Status_Event CONFIRMED ''Order confirmed'', Status_Event PREPARING ''Preparing order'',
      Status_Event SHIPPED ''Order dispatched from warehouse'']"
proof -
  obtain p where p: "pending_previews (orchestrator backend1) ''PRV-A'' = Some p"
    using first_turn_stored by (auto simp: backend1_def)
  obtain pend where pend: "new_order_book ''ORD-2'' = Some pend" "status pend = PENDING"
    "events pend = []"
    using new_order_pending by auto
  have go: "ad_decision go_ahead \<noteq> REJECTED"
    by (simp add: go_ahead_def)
  note T = confirmation_records_three_transitions
    [where st = backend1 and request = request1 and pid = "''PRV-A''" and preview = p
       and new_order_id = "''ORD-1''" and pat = patient1 and book = new_order_book
       and oid = "''ORD-2''" and pending = pend and d = go_ahead and levels = Map.empty]
  from T backend1_pending p obtain ord where
    ord: "orders (fst confirmed1) ''ORD-1'' = Some ord"
      "status_log (events ord) = [VALIDATED, CONFIRMED, PROCESSING]"
    and mono: "\<And>ups. monotonic_lifecycle
         (event_log (later_updates ''ORD-1'' ups (orders (fst confirmed1))) ''ORD-1'')"
    unfolding confirmed1_def by auto
  from T pend go obtain book' stock' where
    r: "confirm_order go_ahead ''ORD-2'' (new_order_book, Map.empty) = Inr (book', stock')"
      "event_log book' ''ORD-2'' =
         events pend @ [Status_Event CONFIRMED ''Order confirmed'',
                        Status_Event PREPARING ''Preparing order'',
                        Status_Event SHIPPED ''Order dispatched from warehouse'']"
    by blast
  have rc: "rest_confirmed = book'"
    by (simp add: rest_confirmed_def r(1))
  show ?thesis
    using backend1_pending p ord mono pend go r(2)
    by (simp add: event_log_def rc new_order_pending)
qed

text \<open>
  Claim C2 as stated fails for an order confirmed through
  \<open>POST /api/orders/{id}/confirm\<close>: on a new order the log records CONFIRMED,
  PREPARING and SHIPPED, and neither VALIDATED nor PROCESSING.
\<close>

theorem lifecycle_counterexample:
  "map_option status (new_order_book ''ORD-2'') = Some PENDING \<and>
   status_log (event_log rest_confirmed ''ORD-2'') = [CONFIRMED, PREPARING, SHIPPED] \<and>
   \<not> monotonic_lifecycle (event_log rest_confirmed ''ORD-2'')"
  by code_simp

section \<open>The hand-off chain\<close>













section \<open>The quantity of the merged evidence\<close>

lemma literal_digits_all:
  "list_all py_is_digit_char s \<Longrightarrow> (s \<noteq> [] \<or> b) \<Longrightarrow> literal_digits b s = Some s"
  by (induction s arbitrary: b) auto

lemma digit_not_space: "py_is_digit_char c \<Longrightarrow> \<not> py_isspace c"
  by (auto simp: py_is_digit_char_def py_isspace_def Let_def)

lemma py_strip_digits:
  assumes "list_all py_is_digit_char s"
  shows "py_strip s = s"
proof (cases s rule: rev_cases)
  case Nil
  then show ?thesis by (simp add: py_strip_def)
next
  case (snoc ys y)
  with assms have y: "\<not> py_isspace y" by (simp add: digit_not_space)
  have front: "dropWhile py_isspace s = s"
  proof (cases s)
    case Nil
    then show ?thesis by simp
  next
    case (Cons c cs)
    with assms show ?thesis by (simp add: digit_not_space)
  qed
  show ?thesis
    unfolding py_strip_def front using snoc y by simp
qed

lemma py_int_digits:
  assumes "py_isdigit s" and "length s \<le> int_max_str_digits"
  shows "py_int s = Inr (int (digits_value s))"
proof -
  from assms have d: "list_all py_is_digit_char s" and ne: "s \<noteq> []"
    by (simp_all add: py_isdigit_def)
  obtain c cs where s: "s = c # cs" using ne by (cases s) auto
  have "py_is_digit_char c" using d s by simp
  then have sign: "c \<noteq> CHR ''-''" "c \<noteq> CHR ''+''"
    by (auto simp: py_is_digit_char_def)
  have strip: "py_strip (c # cs) = c # cs"
    using py_strip_digits [OF d] s by simp
  have lit: "literal_digits False (c # cs) = Some (c # cs)"
    using literal_digits_all [OF d, of False] ne s by simp
  show ?thesis
    unfolding s py_int_def strip using sign lit assms(2) s
    by (simp del: literal_digits.simps)
qed

text \<open>
  The FulfillmentAgent branch: a quantity that is not a digit string gives the default
  1, a digit string within the limit of \<open>int\<close> gives its value.
\<close>

lemma fulfillment_quantity_cases:
  "\<not> py_isdigit (py_strip (py_remove_char (CHR ''x'') (dict_get d ''quantity'' ''1''))) \<Longrightarrow>
     fulfillment_quantity d = Inr 1"
  "py_isdigit (py_strip (py_remove_char (CHR ''x'') (dict_get d ''quantity'' ''1''))) \<Longrightarrow>
   length (py_strip (py_remove_char (CHR ''x'') (dict_get d ''quantity'' ''1''))) \<le> int_max_str_digits \<Longrightarrow>
     fulfillment_quantity d =
       Inr (int (digits_value (py_strip (py_remove_char (CHR ''x'') (dict_get d ''quantity'' ''1'')))))"
  by (simp_all add: fulfillment_quantity_def Let_def py_int_digits)

text \<open>
  Claim C10. The quantity of the merged evidence is read tolerantly on every branch
  that uses it: an unparsable quantity falls back to a default and raises no error. The
  code departs from this on the InventoryAgent and PolicyAgent branches: with the
  evidence "Quantity: ten", \<open>int\<close> raises a ValueError and the request ends in
  the HTTP error 500.
\<close>

theorem unparsable_quantity_raises:
  "chat (Some patient1) ten_aspirin (\<lambda>i. to_nobody) = Some Server_Error"
proof -
  have ev: "parse_evidence (ad_evidence ten_aspirin) ''quantity'' = Some ''ten''"
    by code_simp
  have q: "handoff_quantity (parse_evidence (ad_evidence ten_aspirin)) = Inl ValueError"
    unfolding handoff_quantity_def dict_get_def ev by code_simp
  have nx: "ad_next_agent ten_aspirin = Some ''InventoryAgent''"
    and dc: "ad_decision ten_aspirin = APPROVED"
    by (simp_all add: ten_aspirin_def)
  have "handoff_loop (\<lambda>i. to_nobody) 0 ten_aspirin (parse_evidence (ad_evidence ten_aspirin)) =
          Some (Returned Server_Error)"
    by (subst handoff_loop.simps) (simp add: q nx)
  then show ?thesis
    by (simp add: chat_def dc)
qed

end
